theory Spec2Isabelle
  imports Main "HOL-Library.List_Lexorder" "HOL-Library.Char_ord" "HOL-Library.AList"
begin

section \<open>Formatted errors (gqlerrors/formatted.go)\<close>

text \<open>
  A Go \<open>error\<close> is an interface value: \<open>error option\<close> here, \<open>None\<close> for \<open>nil\<close>.
  The errors these files build are \<open>FormattedError\<close> structs (message and source
  locations; \<open>Details\<close> is never set) and the plain \<open>errors.New\<close> string error.
  The type \<open>gqlerrors.Error\<close>, which \<open>FormatError\<close> also switches on, and the
  package \<open>language/location\<close> are outside the modelled files: no error of that type is
  built here, a source location is an opaque type, and every error built here has the
  empty location list. The \<open>context\<close> argument is only handed to \<open>Formatter\<close> and
  is left out.
\<close>

typedecl SourceLocation

datatype error =
    FormattedError (Message: string) (Locations: "SourceLocation list")
  | errorString string

fun Error :: "error \<Rightarrow> string" where
  "Error (FormattedError message locations) = message"
| "Error (errorString message) = message"

text \<open>\<open>var Formatter ErrorFormatterFunc\<close>: the package variable as declared, \<open>nil\<close>.\<close>

definition Formatter :: "(error \<Rightarrow> error) option" where
  "Formatter = None"

fun FormatError :: "error \<Rightarrow> error" where
  "FormatError (FormattedError message locations) = FormattedError message locations"
| "FormatError err =
     (case Formatter of
        Some f \<Rightarrow> f err
      | None \<Rightarrow> FormattedError (Error err) [])"

definition NewFormattedError :: "string \<Rightarrow> error" where
  "NewFormattedError message = FormatError (errorString message)"

section \<open>Name validation\<close>

text \<open>
  \<open>NAME_REGEXP\<close> is compiled from the pattern \<open>^[_a-zA-Z][_a-zA-Z0-9]*$\<close>.
  The pattern is kept as a syntax tree over the operators it uses, and
  \<open>MatchString\<close> is Go's unanchored search: it tries every start offset; \<open>^\<close>
  matches only at offset 0 and \<open>$\<close> only at the end of the text (no flags are set).
  \<open>matchAt s r p\<close> lists the offsets at which a match of \<open>r\<close> that starts at
  offset \<open>p\<close> of \<open>s\<close> can end. A starred expression is iterated at most once per
  remaining byte, each round having to advance. Strings are byte strings; the classes are
  ASCII ranges, so a byte of a multi-byte rune is in none of them.
\<close>

datatype regexp =
    BeginText
  | EndText
  | CharClass "(char \<times> char) list"
  | Concat regexp regexp
  | Star regexp

definition inClass :: "(char \<times> char) list \<Rightarrow> char \<Rightarrow> bool" where
  "inClass ranges c = list_ex (\<lambda>(lo, hi). lo \<le> c \<and> c \<le> hi) ranges"

primrec starFrom :: "(nat \<Rightarrow> nat list) \<Rightarrow> nat \<Rightarrow> nat \<Rightarrow> nat list" where
  "starFrom f 0 p = [p]"
| "starFrom f (Suc n) p = p # concat (map (starFrom f n) (filter (\<lambda>q. p < q) (f p)))"

primrec matchAt :: "string \<Rightarrow> regexp \<Rightarrow> nat \<Rightarrow> nat list" where
  "matchAt s BeginText p = (if p = 0 then [p] else [])"
| "matchAt s EndText p = (if p = length s then [p] else [])"
| "matchAt s (CharClass ranges) p = (if p < length s \<and> inClass ranges (s ! p) then [Suc p] else [])"
| "matchAt s (Concat a b) p = concat (map (matchAt s b) (matchAt s a p))"
| "matchAt s (Star a) p = starFrom (matchAt s a) (length s - p) p"

definition MatchString :: "regexp \<Rightarrow> string \<Rightarrow> bool" where
  "MatchString re s = list_ex (\<lambda>start. matchAt s re start \<noteq> []) [0..<Suc (length s)]"

definition NAME_REGEXP :: regexp where
  "NAME_REGEXP =
     Concat BeginText
       (Concat (CharClass [(CHR ''_'', CHR ''_''), (CHR ''a'', CHR ''z''), (CHR ''A'', CHR ''Z'')])
         (Concat (Star (CharClass [(CHR ''_'', CHR ''_''), (CHR ''a'', CHR ''z''),
                                   (CHR ''A'', CHR ''Z''), (CHR ''0'', CHR ''9'')]))
           EndText))"

definition assertValidName :: "string \<Rightarrow> error option" where
  \<open>assertValidName name =
     (if \<not> MatchString NAME_REGEXP name
      then Some (NewFormattedError
                   (''Names must match /^[_a-zA-Z][_a-zA-Z0-9]*$/ but "'' @ name @ ''" does not.''))
      else None)\<close>

text \<open>
  The specification's wording of the same pattern, character by character: one or more
  characters, the first a letter or underscore, the others letters, digits or underscores.
\<close>

definition isNameStart :: "char \<Rightarrow> bool" where
  "isNameStart c =
     (c = CHR ''_'' \<or> (CHR ''a'' \<le> c \<and> c \<le> CHR ''z'') \<or> (CHR ''A'' \<le> c \<and> c \<le> CHR ''Z''))"

definition isNameChar :: "char \<Rightarrow> bool" where
  "isNameChar c = (isNameStart c \<or> (CHR ''0'' \<le> c \<and> c \<le> CHR ''9''))"

definition spec_validName :: "string \<Rightarrow> bool" where
  "spec_validName name =
     (case name of [] \<Rightarrow> False | c # cs \<Rightarrow> isNameStart c \<and> list_all isNameChar cs)"

section \<open>The data model of the type system\<close>

text \<open>
  A Go \<open>interface{}\<close> value is \<open>nil\<close>, a \<open>string\<close>, or a value of some other
  comparable dynamic type \<open>'a\<close> (compared with \<open>==\<close>). \<open>ResolveInfo\<close> is only
  handed on to the host's predicates and is the type parameter \<open>'i\<close>. The packages
  \<open>language/ast\<close> and the resolver's parameter types are outside the modelled files:
  an AST value and a field resolver are opaque, and only stored or tested against \<open>nil\<close>.
\<close>

datatype 'a go_value = GoNil | GoString string | GoValue 'a

typedecl ast_Value

typedecl FieldResolveFn

text \<open>
  The named types (Scalar, Object, Interface, Union, Enum, InputObject) are structs
  reached through pointers: an address into the store below, one address space per struct
  type. A \<open>Type\<close> interface value is \<open>None\<close> for \<open>nil\<close> or the dynamic type with
  its pointer (an interface value that wraps a \<open>nil\<close> pointer is not represented).
  The two wrappers are created after the type they wrap and are never changed, so they
  are kept as the finite trees the constructors build. \<open>Argument\<close> and
  \<open>InputObjectField\<close> have the four methods too but are not types of the schema; they
  are records below.
\<close>

type_synonym addr = nat

datatype gtype =
    TScalar addr
  | TObject addr
  | TInterface addr
  | TUnion addr
  | TEnum addr
  | TInputObject addr
  | TList List_type
  | TNonNull NonNull
and List_type =
    List_type (List_OfType: "gtype option") (List_err: "error option")
and NonNull =
    NonNull (NonNull_Name: string) (NonNull_OfType: "gtype option") (NonNull_err: "error option")

subsection \<open>Scalar\<close>

record 'a ScalarConfig =
  ScalarConfig_Name :: string
  ScalarConfig_Description :: string
  ScalarConfig_Serialize :: "('a go_value \<Rightarrow> 'a go_value) option"
  ScalarConfig_ParseValue :: "('a go_value \<Rightarrow> 'a go_value) option"
  ScalarConfig_ParseLiteral :: "(ast_Value \<Rightarrow> 'a go_value) option"

record 'a Scalar =
  Scalar_Name :: string
  Scalar_Description :: string
  Scalar_scalarConfig :: "'a ScalarConfig"
  Scalar_err :: "error option"

subsection \<open>Fields and arguments\<close>

text \<open>
  A Go map is a list of its entries with distinct keys, in the order in which the
  \<open>range\<close> loop that reads it visits them; the runtime may pick any order, so a
  property of a loop over a map is stated for every such list. A \<open>nil\<close> pointer stored
  under a key is \<open>None\<close>.
\<close>

record 'a ArgumentConfig =
  ArgumentConfig_Type :: "gtype option"
  ArgumentConfig_DefaultValue :: "'a go_value"
  ArgumentConfig_Description :: string

record 'a FieldConfig =
  FieldConfig_Name :: string
  FieldConfig_Type :: "gtype option"
  FieldConfig_Args :: "(string \<times> 'a ArgumentConfig option) list"
  FieldConfig_Resolve :: "FieldResolveFn option"
  FieldConfig_DeprecationReason :: string
  FieldConfig_Description :: string

type_synonym 'a FieldConfigMap = "(string \<times> 'a FieldConfig option) list"

record 'a Argument =
  Argument_Name :: string
  Argument_Type :: "gtype option"
  Argument_DefaultValue :: "'a go_value"
  Argument_Description :: string

record 'a FieldDefinition =
  FieldDefinition_Name :: string
  FieldDefinition_Description :: string
  FieldDefinition_Type :: "gtype option"
  FieldDefinition_Args :: "'a Argument list"
  FieldDefinition_Resolve :: "FieldResolveFn option"
  FieldDefinition_DeprecationReason :: string

type_synonym 'a FieldDefinitionMap = "(string \<times> 'a FieldDefinition) list"

subsection \<open>Object\<close>

text \<open>
  \<open>ObjectConfig.Interfaces\<close> is an \<open>interface{}\<close> switched on by dynamic type: a thunk
  (kept as the list it returns), a slice of interface pointers, \<open>nil\<close>, or a value of
  another type (kept as the type's printed name).
\<close>

datatype Interfaces_value =
    InterfacesThunk "addr option list"
  | InterfacesSlice "addr option list"
  | InterfacesNil
  | InterfacesOther string

record ('a, 'i) ObjectConfig =
  ObjectConfig_Name :: string
  ObjectConfig_Interfaces :: Interfaces_value
  ObjectConfig_Fields :: "'a FieldConfigMap"
  ObjectConfig_IsTypeOf :: "('a go_value \<Rightarrow> 'i \<Rightarrow> bool) option"
  ObjectConfig_Description :: string

record ('a, 'i) Object =
  Object_Name :: string
  Object_Description :: string
  Object_IsTypeOf :: "('a go_value \<Rightarrow> 'i \<Rightarrow> bool) option"
  Object_typeConfig :: "('a, 'i) ObjectConfig"
  Object_fields :: "'a FieldDefinitionMap"
  Object_interfaces :: "addr list"
  Object_err :: "error option"

subsection \<open>Interface and Union\<close>

record ('a, 'i) InterfaceConfig =
  InterfaceConfig_Name :: string
  InterfaceConfig_Fields :: "'a FieldConfigMap"
  InterfaceConfig_ResolveType :: "('a go_value \<Rightarrow> 'i \<Rightarrow> addr option) option"
  InterfaceConfig_Description :: string

record ('a, 'i) Interface =
  Interface_Name :: string
  Interface_Description :: string
  Interface_ResolveType :: "('a go_value \<Rightarrow> 'i \<Rightarrow> addr option) option"
  Interface_typeConfig :: "('a, 'i) InterfaceConfig"
  Interface_fields :: "'a FieldDefinitionMap"
  Interface_implementations :: "addr option list"
  Interface_possibleTypes :: "(string \<times> bool) list"
  Interface_err :: "error option"

record ('a, 'i) UnionConfig =
  UnionConfig_Name :: string
  UnionConfig_Types :: "addr option list"
  UnionConfig_ResolveType :: "('a go_value \<Rightarrow> 'i \<Rightarrow> addr option) option"
  UnionConfig_Description :: string

record ('a, 'i) Union =
  Union_Name :: string
  Union_Description :: string
  Union_ResolveType :: "('a go_value \<Rightarrow> 'i \<Rightarrow> addr option) option"
  Union_typeConfig :: "('a, 'i) UnionConfig"
  Union_types :: "addr option list"
  Union_possibleTypes :: "(string \<times> bool) list"
  Union_err :: "error option"

subsection \<open>Enum\<close>

record 'a EnumValueConfig =
  EnumValueConfig_Value :: "'a go_value"
  EnumValueConfig_DeprecationReason :: string
  EnumValueConfig_Description :: string

type_synonym 'a EnumValueConfigMap = "(string \<times> 'a EnumValueConfig option) list"

record 'a EnumConfig =
  EnumConfig_Name :: string
  EnumConfig_Values :: "'a EnumValueConfigMap"
  EnumConfig_Description :: string

record 'a EnumValueDefinition =
  EnumValueDefinition_Name :: string
  EnumValueDefinition_Value :: "'a go_value"
  EnumValueDefinition_DeprecationReason :: string
  EnumValueDefinition_Description :: string

record 'a Enum =
  Enum_Name :: string
  Enum_Description :: string
  Enum_enumConfig :: "'a EnumConfig"
  Enum_values :: "'a EnumValueDefinition list"
  Enum_valuesLookup :: "('a go_value \<times> 'a EnumValueDefinition) list"
  Enum_nameLookup :: "(string \<times> 'a EnumValueDefinition) list"
  Enum_err :: "error option"

subsection \<open>InputObject\<close>

record 'a InputObjectFieldConfig =
  InputObjectFieldConfig_Type :: "gtype option"
  InputObjectFieldConfig_DefaultValue :: "'a go_value"
  InputObjectFieldConfig_Description :: string

record 'a InputObjectField =
  InputObjectField_Name :: string
  InputObjectField_Type :: "gtype option"
  InputObjectField_DefaultValue :: "'a go_value"
  InputObjectField_Description :: string

type_synonym 'a InputObjectConfigFieldMap = "(string \<times> 'a InputObjectFieldConfig option) list"

type_synonym 'a InputObjectFieldMap = "(string \<times> 'a InputObjectField) list"

text \<open>
  \<open>InputObjectConfig.Fields\<close> is an \<open>interface{}\<close>: a field map, a thunk (kept as the
  map it returns), or anything else, \<open>nil\<close> included, which no case of the switch takes.
\<close>

datatype 'a InputObjectFields_value =
    FieldsMap "'a InputObjectConfigFieldMap"
  | FieldsThunk "'a InputObjectConfigFieldMap"
  | FieldsOther

record 'a InputObjectConfig =
  InputObjectConfig_Name :: string
  InputObjectConfig_Fields :: "'a InputObjectFields_value"
  InputObjectConfig_Description :: string

record 'a InputObject =
  InputObject_Name :: string
  InputObject_Description :: string
  InputObject_typeConfig :: "'a InputObjectConfig"
  InputObject_fields :: "'a InputObjectFieldMap"
  InputObject_err :: "error option"

subsection \<open>The store\<close>

text \<open>
  Every non-\<open>nil\<close> pointer of Go points to a struct, so the store is total. The zero
  value of each struct is what \<open>&T{}\<close> allocates.
\<close>

record ('a, 'i) store =
  scalars :: "addr \<Rightarrow> 'a Scalar"
  objects :: "addr \<Rightarrow> ('a, 'i) Object"
  interfaces :: "addr \<Rightarrow> ('a, 'i) Interface"
  unions :: "addr \<Rightarrow> ('a, 'i) Union"
  enums :: "addr \<Rightarrow> 'a Enum"
  inputObjects :: "addr \<Rightarrow> 'a InputObject"

definition ScalarConfig_zero :: "'a ScalarConfig" where
  "ScalarConfig_zero =
     \<lparr>ScalarConfig_Name = [], ScalarConfig_Description = [], ScalarConfig_Serialize = None,
      ScalarConfig_ParseValue = None, ScalarConfig_ParseLiteral = None\<rparr>"

definition Scalar_zero :: "'a Scalar" where
  "Scalar_zero =
     \<lparr>Scalar_Name = [], Scalar_Description = [], Scalar_scalarConfig = ScalarConfig_zero,
      Scalar_err = None\<rparr>"

definition ObjectConfig_zero :: "('a, 'i) ObjectConfig" where
  "ObjectConfig_zero =
     \<lparr>ObjectConfig_Name = [], ObjectConfig_Interfaces = InterfacesNil, ObjectConfig_Fields = [],
      ObjectConfig_IsTypeOf = None, ObjectConfig_Description = []\<rparr>"

definition Object_zero :: "('a, 'i) Object" where
  "Object_zero =
     \<lparr>Object_Name = [], Object_Description = [], Object_IsTypeOf = None,
      Object_typeConfig = ObjectConfig_zero, Object_fields = [], Object_interfaces = [],
      Object_err = None\<rparr>"

definition InterfaceConfig_zero :: "('a, 'i) InterfaceConfig" where
  "InterfaceConfig_zero =
     \<lparr>InterfaceConfig_Name = [], InterfaceConfig_Fields = [], InterfaceConfig_ResolveType = None,
      InterfaceConfig_Description = []\<rparr>"

definition Interface_zero :: "('a, 'i) Interface" where
  "Interface_zero =
     \<lparr>Interface_Name = [], Interface_Description = [], Interface_ResolveType = None,
      Interface_typeConfig = InterfaceConfig_zero, Interface_fields = [],
      Interface_implementations = [], Interface_possibleTypes = [], Interface_err = None\<rparr>"

definition UnionConfig_zero :: "('a, 'i) UnionConfig" where
  "UnionConfig_zero =
     \<lparr>UnionConfig_Name = [], UnionConfig_Types = [], UnionConfig_ResolveType = None,
      UnionConfig_Description = []\<rparr>"

definition Union_zero :: "('a, 'i) Union" where
  "Union_zero =
     \<lparr>Union_Name = [], Union_Description = [], Union_ResolveType = None,
      Union_typeConfig = UnionConfig_zero, Union_types = [], Union_possibleTypes = [],
      Union_err = None\<rparr>"

definition EnumConfig_zero :: "'a EnumConfig" where
  "EnumConfig_zero = \<lparr>EnumConfig_Name = [], EnumConfig_Values = [], EnumConfig_Description = []\<rparr>"

definition Enum_zero :: "'a Enum" where
  "Enum_zero =
     \<lparr>Enum_Name = [], Enum_Description = [], Enum_enumConfig = EnumConfig_zero, Enum_values = [],
      Enum_valuesLookup = [], Enum_nameLookup = [], Enum_err = None\<rparr>"

definition InputObjectConfig_zero :: "'a InputObjectConfig" where
  "InputObjectConfig_zero =
     \<lparr>InputObjectConfig_Name = [], InputObjectConfig_Fields = FieldsOther,
      InputObjectConfig_Description = []\<rparr>"

definition InputObject_zero :: "'a InputObject" where
  "InputObject_zero =
     \<lparr>InputObject_Name = [], InputObject_Description = [],
      InputObject_typeConfig = InputObjectConfig_zero, InputObject_fields = [],
      InputObject_err = None\<rparr>"

definition store_zero :: "('a, 'i) store" where
  "store_zero =
     \<lparr>scalars = (\<lambda>p. Scalar_zero), objects = (\<lambda>p. Object_zero),
      interfaces = (\<lambda>p. Interface_zero), unions = (\<lambda>p. Union_zero),
      enums = (\<lambda>p. Enum_zero), inputObjects = (\<lambda>p. InputObject_zero)\<rparr>"

section \<open>Methods of the \<open>Type\<close> interface\<close>

definition Scalar_String :: "'a Scalar \<Rightarrow> string" where
  "Scalar_String st = Scalar_Name st"

definition Object_String :: "('a, 'i) Object \<Rightarrow> string" where
  "Object_String gt = Object_Name gt"

definition Interface_String :: "('a, 'i) Interface \<Rightarrow> string" where
  "Interface_String it = Interface_Name it"

definition Union_String :: "('a, 'i) Union \<Rightarrow> string" where
  "Union_String ut = Union_Name ut"

definition Enum_String :: "'a Enum \<Rightarrow> string" where
  "Enum_String gt = Enum_Name gt"

definition InputObject_String :: "'a InputObject \<Rightarrow> string" where
  "InputObject_String gt = InputObject_Name gt"

text \<open>
  \<open>fmt_v\<close> is \<open>fmt.Sprintf("%v", t)\<close> on a \<open>Type\<close> interface value: \<open><nil>\<close> for
  \<open>nil\<close>, the \<open>String()\<close> method otherwise.
\<close>

fun Type_String :: "('a, 'i) store \<Rightarrow> gtype \<Rightarrow> string"
  and List_String :: "('a, 'i) store \<Rightarrow> List_type \<Rightarrow> string"
  and NonNull_GetName :: "('a, 'i) store \<Rightarrow> NonNull \<Rightarrow> string"
  and fmt_v :: "('a, 'i) store \<Rightarrow> gtype option \<Rightarrow> string"
where
  "Type_String s (TScalar p) = Scalar_String (scalars s p)"
| "Type_String s (TObject p) = Object_String (objects s p)"
| "Type_String s (TInterface p) = Interface_String (interfaces s p)"
| "Type_String s (TUnion p) = Union_String (unions s p)"
| "Type_String s (TEnum p) = Enum_String (enums s p)"
| "Type_String s (TInputObject p) = InputObject_String (inputObjects s p)"
| "Type_String s (TList gl) = List_String s gl"
| "Type_String s (TNonNull gl) =
     (case gl of NonNull n None e \<Rightarrow> [] | NonNull n (Some t) e \<Rightarrow> NonNull_GetName s gl)"
| "List_String s (List_type None e) = []"
| "List_String s (List_type (Some t) e) = ''['' @ fmt_v s (Some t) @ '']''"
| "NonNull_GetName s (NonNull n ofType e) = fmt_v s ofType @ ''!''"
| "fmt_v s None = ''<nil>''"
| "fmt_v s (Some t) = Type_String s t"

definition Scalar_GetError :: "'a Scalar \<Rightarrow> error option" where
  "Scalar_GetError st = Scalar_err st"

definition Object_GetError :: "('a, 'i) Object \<Rightarrow> error option" where
  "Object_GetError gt = Object_err gt"

definition Interface_GetError :: "('a, 'i) Interface \<Rightarrow> error option" where
  "Interface_GetError it = Interface_err it"

definition Union_GetError :: "('a, 'i) Union \<Rightarrow> error option" where
  "Union_GetError ut = Union_err ut"

definition Enum_GetError :: "'a Enum \<Rightarrow> error option" where
  "Enum_GetError gt = Enum_err gt"

definition InputObject_GetError :: "'a InputObject \<Rightarrow> error option" where
  "InputObject_GetError gt = InputObject_err gt"

definition List_GetError :: "List_type \<Rightarrow> error option" where
  "List_GetError gl = List_err gl"

definition NonNull_GetError :: "NonNull \<Rightarrow> error option" where
  "NonNull_GetError gl = NonNull_err gl"

fun Type_GetError :: "('a, 'i) store \<Rightarrow> gtype \<Rightarrow> error option" where
  "Type_GetError s (TScalar p) = Scalar_GetError (scalars s p)"
| "Type_GetError s (TObject p) = Object_GetError (objects s p)"
| "Type_GetError s (TInterface p) = Interface_GetError (interfaces s p)"
| "Type_GetError s (TUnion p) = Union_GetError (unions s p)"
| "Type_GetError s (TEnum p) = Enum_GetError (enums s p)"
| "Type_GetError s (TInputObject p) = InputObject_GetError (inputObjects s p)"
| "Type_GetError s (TList gl) = List_GetError gl"
| "Type_GetError s (TNonNull gl) = NonNull_GetError gl"

definition Scalar_GetDescription :: "'a Scalar \<Rightarrow> string" where
  "Scalar_GetDescription st = Scalar_Description st"

definition Object_GetDescription :: "('a, 'i) Object \<Rightarrow> string" where
  "Object_GetDescription gt = []"

definition Interface_GetDescription :: "('a, 'i) Interface \<Rightarrow> string" where
  "Interface_GetDescription it = Interface_Description it"

definition Union_GetDescription :: "('a, 'i) Union \<Rightarrow> string" where
  "Union_GetDescription ut = Union_Description ut"

definition Enum_GetDescription :: "'a Enum \<Rightarrow> string" where
  "Enum_GetDescription gt = []"

definition InputObject_GetDescription :: "'a InputObject \<Rightarrow> string" where
  "InputObject_GetDescription gt = InputObject_Description gt"

section \<open>List and NonNull\<close>

definition NewList :: "gtype option \<Rightarrow> List_type" where
  "NewList ofType =
     (if ofType = None
      then List_type None
             (Some (NewFormattedError
                      (''Can only create List of a Type but got: '' @ ''<nil>'' @ ''.'')))
      else List_type ofType None)"

definition NewNonNull :: "('a, 'i) store \<Rightarrow> gtype option \<Rightarrow> NonNull" where
  "NewNonNull s ofType =
     (let isOfTypeNonNull = (case ofType of Some (TNonNull n) \<Rightarrow> True | _ \<Rightarrow> False)
      in if ofType = None \<or> isOfTypeNonNull
         then NonNull [] None
                (Some (NewFormattedError
                         (''Can only create NonNull of a Nullable Type but got: ''
                            @ fmt_v s ofType @ ''.'')))
         else NonNull [] ofType None)"

text \<open>
  \<open>GetNamed\<close>: the loop variable \<open>unmodifiedType\<close> is the argument of the recursion; the
  loop is left when it holds neither a List nor a NonNull.
\<close>

fun GetNamed :: "gtype option \<Rightarrow> gtype option" where
  "GetNamed (Some (TList (List_type ofType e))) = GetNamed ofType"
| "GetNamed (Some (TNonNull (NonNull n ofType e))) = GetNamed ofType"
| "GetNamed unmodifiedType = unmodifiedType"

section \<open>Scalar\<close>

definition NewScalar :: "'a ScalarConfig \<Rightarrow> 'a Scalar" where
  \<open>NewScalar config =
     (let st = Scalar_zero in
      if ScalarConfig_Name config = [] then
        st\<lparr>Scalar_err := Some (NewFormattedError ''Type must be named.'')\<rparr>
      else case assertValidName (ScalarConfig_Name config) of
        Some err \<Rightarrow> st\<lparr>Scalar_err := Some err\<rparr>
      | None \<Rightarrow>
         (let st = st\<lparr>Scalar_Name := ScalarConfig_Name config,
                      Scalar_Description := ScalarConfig_Description config\<rparr>
          in if ScalarConfig_Serialize config = None then
               st\<lparr>Scalar_err := Some (NewFormattedError
                 (Scalar_String st @ '' must provide "serialize" function. If this custom Scalar is ''
                    @ ''also used as an input type, ensure "parseValue" and "parseLiteral" ''
                    @ ''functions are also provided.''))\<rparr>
             else if ScalarConfig_ParseValue config = None \<or> ScalarConfig_ParseLiteral config = None then
               st\<lparr>Scalar_err := Some (NewFormattedError
                 (Scalar_String st @ '' must provide both "parseValue" and "parseLiteral" functions.''))\<rparr>
             else st\<lparr>Scalar_scalarConfig := config\<rparr>))\<close>

definition Scalar_Serialize :: "'a Scalar \<Rightarrow> 'a go_value \<Rightarrow> 'a go_value" where
  "Scalar_Serialize st v =
     (case ScalarConfig_Serialize (Scalar_scalarConfig st) of None \<Rightarrow> v | Some f \<Rightarrow> f v)"

definition Scalar_ParseValue :: "'a Scalar \<Rightarrow> 'a go_value \<Rightarrow> 'a go_value" where
  "Scalar_ParseValue st v =
     (case ScalarConfig_ParseValue (Scalar_scalarConfig st) of None \<Rightarrow> v | Some f \<Rightarrow> f v)"

definition Scalar_ParseLiteral :: "'a Scalar \<Rightarrow> ast_Value \<Rightarrow> 'a go_value" where
  "Scalar_ParseLiteral st valueAST =
     (case ScalarConfig_ParseLiteral (Scalar_scalarConfig st) of
        None \<Rightarrow> GoNil
      | Some f \<Rightarrow> f valueAST)"

section \<open>The field-map and interface-list builders\<close>

text \<open>
  \<open>defineInterfaces\<close>: \<open>ttype\<close> is the pointer to the implementing Object. The result
  slice holds only pointers the loop has tested against \<open>nil\<close>, so it is a list of
  addresses.
\<close>

fun defineInterfaces_loop ::
  "('a, 'i) store \<Rightarrow> addr \<Rightarrow> addr list \<Rightarrow> addr option list \<Rightarrow> addr list \<times> error option"
where
  \<open>defineInterfaces_loop s ttype ifaces [] = (ifaces, None)\<close>
| \<open>defineInterfaces_loop s ttype ifaces (None # rest) =
     (ifaces, Some (NewFormattedError
        (Object_String (objects s ttype)
           @ '' may only implement Interface types, it cannot implement: '' @ ''<nil>'' @ ''.'')))\<close>
| \<open>defineInterfaces_loop s ttype ifaces (Some iface # rest) =
     (if Interface_ResolveType (interfaces s iface) = None then
        (ifaces, Some (NewFormattedError
           (''Interface Type '' @ Interface_String (interfaces s iface)
              @ '' does not provide a "resolveType" function ''
              @ ''and implementing Type '' @ Object_String (objects s ttype)
              @ '' does not provide a "isTypeOf" ''
              @ ''function. There is no way to resolve this implementing type ''
              @ ''during execution.'')))
      else defineInterfaces_loop s ttype (ifaces @ [iface]) rest)\<close>

definition defineInterfaces ::
  "('a, 'i) store \<Rightarrow> addr \<Rightarrow> addr option list \<Rightarrow> addr list \<times> error option"
where
  "defineInterfaces s ttype ifs =
     (if length ifs = 0 then ([], None) else defineInterfaces_loop s ttype [] ifs)"

text \<open>
  \<open>defineFieldMap\<close>: \<open>ttype\<close> is the owner as a \<open>Named\<close> value, used for its
  \<open>String()\<close> only. The argument loop returns at the first error; the arguments are then
  sorted by name (the names are the keys of a map, hence distinct, so the sorted order is
  unique).
\<close>

fun defineFieldMap_args ::
  "('a, 'i) store \<Rightarrow> gtype \<Rightarrow> string \<Rightarrow> 'a Argument list \<Rightarrow>
   (string \<times> 'a ArgumentConfig option) list \<Rightarrow> error + 'a Argument list"
where
  \<open>defineFieldMap_args s ttype fieldName args [] = Inr args\<close>
| \<open>defineFieldMap_args s ttype fieldName args ((argName, arg) # rest) =
     (case assertValidName argName of
        Some err \<Rightarrow> Inl err
      | None \<Rightarrow>
         (case arg of
            None \<Rightarrow> Inl (NewFormattedError
              (Type_String s ttype @ ''.'' @ fieldName
                 @ '' args must be an object with argument names as keys.''))
          | Some a \<Rightarrow>
             if ArgumentConfig_Type a = None then
               Inl (NewFormattedError
                 (Type_String s ttype @ ''.'' @ fieldName @ ''('' @ argName
                    @ '':) argument type must be Input Type but got: ''
                    @ fmt_v s (ArgumentConfig_Type a) @ ''.''))
             else
               defineFieldMap_args s ttype fieldName
                 (args @ [\<lparr>Argument_Name = argName,
                            Argument_Type = ArgumentConfig_Type a,
                            Argument_DefaultValue = ArgumentConfig_DefaultValue a,
                            Argument_Description = ArgumentConfig_Description a\<rparr>])
                 rest))\<close>

fun defineFieldMap_loop ::
  "('a, 'i) store \<Rightarrow> gtype \<Rightarrow> 'a FieldDefinitionMap \<Rightarrow> 'a FieldConfigMap \<Rightarrow>
   'a FieldDefinitionMap \<times> error option"
where
  \<open>defineFieldMap_loop s ttype resultFieldMap [] = (resultFieldMap, None)\<close>
| \<open>defineFieldMap_loop s ttype resultFieldMap ((fieldName, None) # rest) =
     defineFieldMap_loop s ttype resultFieldMap rest\<close>
| \<open>defineFieldMap_loop s ttype resultFieldMap ((fieldName, Some field) # rest) =
     (case FieldConfig_Type field of
        None \<Rightarrow>
          (resultFieldMap, Some (NewFormattedError
             (Type_String s ttype @ ''.'' @ fieldName
                @ '' field type must be Output Type but got: ''
                @ fmt_v s (FieldConfig_Type field) @ ''.'')))
      | Some fieldType \<Rightarrow>
          if Type_GetError s fieldType \<noteq> None then (resultFieldMap, Type_GetError s fieldType)
          else
            (case assertValidName fieldName of
               Some err \<Rightarrow> (resultFieldMap, Some err)
             | None \<Rightarrow>
                (case defineFieldMap_args s ttype fieldName [] (FieldConfig_Args field) of
                   Inl err \<Rightarrow> (resultFieldMap, Some err)
                 | Inr args \<Rightarrow>
                    (let fieldDef =
                           \<lparr>FieldDefinition_Name = fieldName,
                            FieldDefinition_Description = FieldConfig_Description field,
                            FieldDefinition_Type = FieldConfig_Type field,
                            FieldDefinition_Args = sort_key Argument_Name args,
                            FieldDefinition_Resolve = FieldConfig_Resolve field,
                            FieldDefinition_DeprecationReason = FieldConfig_DeprecationReason field\<rparr>
                     in defineFieldMap_loop s ttype
                          (AList.update fieldName fieldDef resultFieldMap) rest))))\<close>

definition defineFieldMap ::
  "('a, 'i) store \<Rightarrow> gtype \<Rightarrow> 'a FieldConfigMap \<Rightarrow> 'a FieldDefinitionMap \<times> error option"
where
  \<open>defineFieldMap s ttype fieldConfigs =
     (if length fieldConfigs = 0 then
        ([], Some (NewFormattedError
           (Type_String s ttype
              @ '' fields must be an object with field names as keys or a function which return such an object.'')))
      else defineFieldMap_loop s ttype [] fieldConfigs)\<close>

section \<open>Object\<close>

text \<open>
  The methods of \<open>*Object\<close> that write to the receiver take the store and the receiver's
  address and return the new store. A \<open>nil\<close> slice is the empty list.
\<close>

definition Object_GetFields ::
  "('a, 'i) store \<Rightarrow> addr \<Rightarrow> 'a FieldDefinitionMap \<times> ('a, 'i) store"
where
  "Object_GetFields s gt =
     (let (fieldMap, err) =
            defineFieldMap s (TObject gt) (ObjectConfig_Fields (Object_typeConfig (objects s gt)))
      in (fieldMap,
          s\<lparr>objects := (objects s)(gt := (objects s gt)\<lparr>Object_err := err, Object_fields := fieldMap\<rparr>)\<rparr>))"

definition Object_GetInterfaces :: "('a, 'i) store \<Rightarrow> addr \<Rightarrow> addr list \<times> ('a, 'i) store" where
  \<open>Object_GetInterfaces s gt =
     (case ObjectConfig_Interfaces (Object_typeConfig (objects s gt)) of
        InterfacesOther typeName \<Rightarrow>
          ([], s\<lparr>objects := (objects s)(gt := (objects s gt)
                   \<lparr>Object_err := Some (errorString (''Unknown Object.Interfaces type: '' @ typeName))\<rparr>)\<rparr>)
      | configValue \<Rightarrow>
          (let configInterfaces =
                 (case configValue of
                    InterfacesThunk l \<Rightarrow> l
                  | InterfacesSlice l \<Rightarrow> l
                  | _ \<Rightarrow> []);
               (ifaces, err) = defineInterfaces s gt configInterfaces
           in (ifaces,
               s\<lparr>objects := (objects s)(gt := (objects s gt)
                    \<lparr>Object_err := err, Object_interfaces := ifaces\<rparr>)\<rparr>)))\<close>

text \<open>
  \<open>NewObject\<close>: \<open>objectType\<close> is the address of the struct that \<open>&Object{}\<close> allocates.
  The final loop appends the new object to the implementation list of every interface that
  \<open>GetInterfaces\<close> returned.
\<close>

definition addImplementation :: "addr \<Rightarrow> addr \<Rightarrow> ('a, 'i) store \<Rightarrow> ('a, 'i) store" where
  "addImplementation objectType iface s =
     s\<lparr>interfaces := (interfaces s)(iface := (interfaces s iface)
         \<lparr>Interface_implementations :=
            Interface_implementations (interfaces s iface) @ [Some objectType]\<rparr>)\<rparr>"

definition NewObject :: "('a, 'i) store \<Rightarrow> addr \<Rightarrow> ('a, 'i) ObjectConfig \<Rightarrow> ('a, 'i) store" where
  \<open>NewObject s objectType config =
     (if ObjectConfig_Name config = [] then
        s\<lparr>objects := (objects s)(objectType :=
            Object_zero\<lparr>Object_err := Some (NewFormattedError ''Type must be named.'')\<rparr>)\<rparr>
      else case assertValidName (ObjectConfig_Name config) of
        Some err \<Rightarrow> s\<lparr>objects := (objects s)(objectType := Object_zero\<lparr>Object_err := Some err\<rparr>)\<rparr>
      | None \<Rightarrow>
         (let s1 = s\<lparr>objects := (objects s)(objectType :=
                       Object_zero\<lparr>Object_Name := ObjectConfig_Name config,
                                   Object_Description := ObjectConfig_Description config,
                                   Object_IsTypeOf := ObjectConfig_IsTypeOf config,
                                   Object_typeConfig := config\<rparr>)\<rparr>;
              (ifaces, s2) = Object_GetInterfaces s1 objectType
          in fold (addImplementation objectType) ifaces s2))\<close>

section \<open>Interface, Union and the resolution of abstract types\<close>

definition NewInterface :: "('a, 'i) InterfaceConfig \<Rightarrow> ('a, 'i) Interface" where
  \<open>NewInterface config =
     (let it = Interface_zero in
      if InterfaceConfig_Name config = [] then
        it\<lparr>Interface_err := Some (NewFormattedError ''Type must be named.'')\<rparr>
      else case assertValidName (InterfaceConfig_Name config) of
        Some err \<Rightarrow> it\<lparr>Interface_err := Some err\<rparr>
      | None \<Rightarrow>
          it\<lparr>Interface_Name := InterfaceConfig_Name config,
             Interface_Description := InterfaceConfig_Description config,
             Interface_ResolveType := InterfaceConfig_ResolveType config,
             Interface_typeConfig := config,
             Interface_implementations := []\<rparr>)\<close>

fun NewUnion_loop ::
  "('a, 'i) store \<Rightarrow> ('a, 'i) Union \<Rightarrow> addr option list \<Rightarrow> error option"
where
  \<open>NewUnion_loop s objectType [] = None\<close>
| \<open>NewUnion_loop s objectType (None # rest) =
     Some (NewFormattedError
       (Union_String objectType @ '' may only contain Object types, it cannot contain: ''
          @ ''<nil>'' @ ''.''))\<close>
| \<open>NewUnion_loop s objectType (Some ttype # rest) =
     (if Union_ResolveType objectType = None \<and> Object_IsTypeOf (objects s ttype) = None then
        Some (NewFormattedError
          (''Union Type '' @ Union_String objectType
             @ '' does not provide a "resolveType" function ''
             @ ''and possible Type '' @ Object_String (objects s ttype)
             @ '' does not provide a "isTypeOf" ''
             @ ''function. There is no way to resolve this possible type ''
             @ ''during execution.''))
      else NewUnion_loop s objectType rest)\<close>

definition NewUnion :: "('a, 'i) store \<Rightarrow> ('a, 'i) UnionConfig \<Rightarrow> ('a, 'i) Union" where
  \<open>NewUnion s config =
     (let objectType = Union_zero in
      if UnionConfig_Name config = [] then
        objectType\<lparr>Union_err := Some (NewFormattedError ''Type must be named.'')\<rparr>
      else case assertValidName (UnionConfig_Name config) of
        Some err \<Rightarrow> objectType\<lparr>Union_err := Some err\<rparr>
      | None \<Rightarrow>
         (let objectType = objectType\<lparr>Union_Name := UnionConfig_Name config,
                                      Union_Description := UnionConfig_Description config,
                                      Union_ResolveType := UnionConfig_ResolveType config\<rparr>
          in if length (UnionConfig_Types config) = 0 then
               objectType\<lparr>Union_err := Some (NewFormattedError
                 (''Must provide Array of types for Union '' @ UnionConfig_Name config @ ''.''))\<rparr>
             else case NewUnion_loop s objectType (UnionConfig_Types config) of
               Some err \<Rightarrow> objectType\<lparr>Union_err := Some err\<rparr>
             | None \<Rightarrow> objectType\<lparr>Union_types := UnionConfig_Types config,
                                   Union_typeConfig := config\<rparr>))\<close>

datatype ('a, 'i) Abstract =
    AbstractInterface "('a, 'i) Interface"
  | AbstractUnion "('a, 'i) Union"

definition Interface_GetPossibleTypes :: "('a, 'i) Interface \<Rightarrow> addr option list" where
  "Interface_GetPossibleTypes it = Interface_implementations it"

definition Union_GetPossibleTypes :: "('a, 'i) Union \<Rightarrow> addr option list" where
  "Union_GetPossibleTypes ut = Union_types ut"

fun Abstract_GetPossibleTypes :: "('a, 'i) Abstract \<Rightarrow> addr option list" where
  "Abstract_GetPossibleTypes (AbstractInterface it) = Interface_GetPossibleTypes it"
| "Abstract_GetPossibleTypes (AbstractUnion ut) = Union_GetPossibleTypes ut"

text \<open>
  A call can return or panic: reading \<open>possibleType.IsTypeOf\<close> through a \<open>nil\<close>
  pointer is a run-time panic. The host's predicates are taken to be total and free of
  effects.
\<close>

datatype 'r outcome = Panic | Return 'r

fun getTypeOf_loop ::
  "('a, 'i) store \<Rightarrow> 'a go_value \<Rightarrow> 'i \<Rightarrow> addr option list \<Rightarrow> addr option outcome"
where
  "getTypeOf_loop s v info [] = Return None"
| "getTypeOf_loop s v info (None # rest) = Panic"
| "getTypeOf_loop s v info (Some possibleType # rest) =
     (case Object_IsTypeOf (objects s possibleType) of
        None \<Rightarrow> getTypeOf_loop s v info rest
      | Some isTypeOf \<Rightarrow>
          if isTypeOf v info then Return (Some possibleType)
          else getTypeOf_loop s v info rest)"

definition getTypeOf ::
  "('a, 'i) store \<Rightarrow> 'a go_value \<Rightarrow> 'i \<Rightarrow> ('a, 'i) Abstract \<Rightarrow> addr option outcome"
where
  "getTypeOf s v info abstractType =
     getTypeOf_loop s v info (Abstract_GetPossibleTypes abstractType)"

definition Interface_GetObjectType ::
  "('a, 'i) store \<Rightarrow> ('a, 'i) Interface \<Rightarrow> 'a go_value \<Rightarrow> 'i \<Rightarrow> addr option outcome"
where
  "Interface_GetObjectType s it v info =
     (case Interface_ResolveType it of
        Some resolveType \<Rightarrow> Return (resolveType v info)
      | None \<Rightarrow> getTypeOf s v info (AbstractInterface it))"

definition Union_GetObjectType ::
  "('a, 'i) store \<Rightarrow> ('a, 'i) Union \<Rightarrow> 'a go_value \<Rightarrow> 'i \<Rightarrow> addr option outcome"
where
  "Union_GetObjectType s ut v info =
     (case Union_ResolveType ut of
        Some resolveType \<Rightarrow> Return (resolveType v info)
      | None \<Rightarrow> getTypeOf s v info (AbstractUnion ut))"

section \<open>Enum\<close>

text \<open>
  \<open>defineEnumValues\<close> is a method of the Enum under construction, read for its
  \<open>String()\<close> only. The loop returns the values collected so far together with the first
  error; when it runs to its end the values are sorted by name.
\<close>

fun defineEnumValues_loop ::
  "'a Enum \<Rightarrow> 'a EnumValueDefinition list \<Rightarrow> 'a EnumValueConfigMap \<Rightarrow>
   'a EnumValueDefinition list \<times> error option"
where
  \<open>defineEnumValues_loop gt vals [] = (sort_key EnumValueDefinition_Name vals, None)\<close>
| \<open>defineEnumValues_loop gt vals ((valueName, None) # rest) =
     (vals, Some (NewFormattedError
        (Enum_String gt @ ''.'' @ valueName
           @ '' must refer to an object with a "value" key ''
           @ ''representing an internal value but got: '' @ ''<nil>'' @ ''.'')))\<close>
| \<open>defineEnumValues_loop gt vals ((valueName, Some valueConfig) # rest) =
     (case assertValidName valueName of
        Some err \<Rightarrow> (vals, Some err)
      | None \<Rightarrow>
         (let v = \<lparr>EnumValueDefinition_Name = valueName,
                   EnumValueDefinition_Value = EnumValueConfig_Value valueConfig,
                   EnumValueDefinition_DeprecationReason = EnumValueConfig_DeprecationReason valueConfig,
                   EnumValueDefinition_Description = EnumValueConfig_Description valueConfig\<rparr>;
              v = (if EnumValueDefinition_Value v = GoNil
                   then v\<lparr>EnumValueDefinition_Value := GoString valueName\<rparr> else v)
          in defineEnumValues_loop gt (vals @ [v]) rest))\<close>

definition defineEnumValues ::
  "'a Enum \<Rightarrow> 'a EnumValueConfigMap \<Rightarrow> 'a EnumValueDefinition list \<times> error option"
where
  \<open>defineEnumValues gt valueMap =
     (if length valueMap = 0 then
        ([], Some (NewFormattedError
           (Enum_String gt @ '' values must be an object with value names as keys.'')))
      else defineEnumValues_loop gt [] valueMap)\<close>

definition NewEnum :: "'a EnumConfig \<Rightarrow> 'a Enum" where
  "NewEnum config =
     (let gt = Enum_zero\<lparr>Enum_enumConfig := config\<rparr> in
      case assertValidName (EnumConfig_Name config) of
        Some err \<Rightarrow> gt\<lparr>Enum_err := Some err\<rparr>
      | None \<Rightarrow>
         (let gt = gt\<lparr>Enum_Name := EnumConfig_Name config,
                      Enum_Description := EnumConfig_Description config\<rparr>;
              (vals, err) = defineEnumValues gt (EnumConfig_Values config);
              gt = gt\<lparr>Enum_values := vals\<rparr>
          in case err of
               Some e \<Rightarrow> gt\<lparr>Enum_err := Some e\<rparr>
             | None \<Rightarrow> gt))"

definition Enum_GetValues :: "'a Enum \<Rightarrow> 'a EnumValueDefinition list" where
  "Enum_GetValues gt = Enum_values gt"

text \<open>
  The two lookup tables are built on first use and kept on the Enum, so the methods that
  read them return the Enum as well. A table is a Go map: writing a key again replaces its
  entry.
\<close>

definition getValueLookup ::
  "'a Enum \<Rightarrow> ('a go_value \<times> 'a EnumValueDefinition) list \<times> 'a Enum"
where
  "getValueLookup gt =
     (if length (Enum_valuesLookup gt) > 0 then (Enum_valuesLookup gt, gt)
      else
        (let valuesLookup =
               fold (\<lambda>v m. AList.update (EnumValueDefinition_Value v) v m) (Enum_GetValues gt) []
         in (valuesLookup, gt\<lparr>Enum_valuesLookup := valuesLookup\<rparr>)))"

definition getNameLookup :: "'a Enum \<Rightarrow> (string \<times> 'a EnumValueDefinition) list \<times> 'a Enum" where
  "getNameLookup gt =
     (if length (Enum_nameLookup gt) > 0 then (Enum_nameLookup gt, gt)
      else
        (let nameLookup =
               fold (\<lambda>v m. AList.update (EnumValueDefinition_Name v) v m) (Enum_GetValues gt) []
         in (nameLookup, gt\<lparr>Enum_nameLookup := nameLookup\<rparr>)))"

definition Enum_Serialize :: "'a Enum \<Rightarrow> 'a go_value \<Rightarrow> 'a go_value \<times> 'a Enum" where
  "Enum_Serialize gt v =
     (let (lookup, gt) = getValueLookup gt
      in case map_of lookup v of
           Some enumValue \<Rightarrow> (GoString (EnumValueDefinition_Name enumValue), gt)
         | None \<Rightarrow> (GoNil, gt))"

definition Enum_ParseValue :: "'a Enum \<Rightarrow> 'a go_value \<Rightarrow> 'a go_value \<times> 'a Enum" where
  "Enum_ParseValue gt v =
     (case v of
        GoString valueStr \<Rightarrow>
          (let (lookup, gt) = getNameLookup gt
           in case map_of lookup valueStr of
                Some enumValue \<Rightarrow> (EnumValueDefinition_Value enumValue, gt)
              | None \<Rightarrow> (GoNil, gt))
      | _ \<Rightarrow> (GoNil, gt))"

section \<open>InputObject\<close>

text \<open>
  \<open>defineFieldMap\<close> of \<open>*InputObject\<close> writes the receiver's \<open>err\<close> and returns the
  field map; the model returns both.
\<close>

fun InputObject_defineFieldMap_loop ::
  "'a InputObject \<Rightarrow> 'a InputObjectFieldMap \<Rightarrow> 'a InputObjectConfigFieldMap \<Rightarrow>
   'a InputObjectFieldMap \<times> 'a InputObject"
where
  \<open>InputObject_defineFieldMap_loop gt resultFieldMap [] = (resultFieldMap, gt)\<close>
| \<open>InputObject_defineFieldMap_loop gt resultFieldMap ((fieldName, None) # rest) =
     InputObject_defineFieldMap_loop gt resultFieldMap rest\<close>
| \<open>InputObject_defineFieldMap_loop gt resultFieldMap ((fieldName, Some fieldConfig) # rest) =
     (case assertValidName fieldName of
        Some err \<Rightarrow> InputObject_defineFieldMap_loop gt resultFieldMap rest
      | None \<Rightarrow>
          if InputObjectFieldConfig_Type fieldConfig = None then
            (resultFieldMap,
             gt\<lparr>InputObject_err := Some (NewFormattedError
                  (InputObject_String gt @ ''.'' @ fieldName
                     @ '' field type must be Input Type but got: '' @ ''<nil>'' @ ''.''))\<rparr>)
          else
            InputObject_defineFieldMap_loop gt
              (AList.update fieldName
                 \<lparr>InputObjectField_Name = fieldName,
                  InputObjectField_Type = InputObjectFieldConfig_Type fieldConfig,
                  InputObjectField_DefaultValue = InputObjectFieldConfig_DefaultValue fieldConfig,
                  InputObjectField_Description = InputObjectFieldConfig_Description fieldConfig\<rparr>
                 resultFieldMap)
              rest)\<close>

definition InputObject_defineFieldMap ::
  "'a InputObject \<Rightarrow> 'a InputObjectFieldMap \<times> 'a InputObject"
where
  \<open>InputObject_defineFieldMap gt =
     (let fieldMap =
            (case InputObjectConfig_Fields (InputObject_typeConfig gt) of
               FieldsMap m \<Rightarrow> m
             | FieldsThunk m \<Rightarrow> m
             | FieldsOther \<Rightarrow> [])
      in if length fieldMap = 0 then
           ([], gt\<lparr>InputObject_err := Some (NewFormattedError
                  (InputObject_String gt
                     @ '' fields must be an object with field names as keys or a function which return such an object.''))\<rparr>)
         else InputObject_defineFieldMap_loop gt [] fieldMap)\<close>

definition NewInputObject :: "'a InputObjectConfig \<Rightarrow> 'a InputObject" where
  "NewInputObject config =
     (let gt = InputObject_zero in
      if InputObjectConfig_Name config = [] then
        gt\<lparr>InputObject_err := Some (NewFormattedError ''Type must be named.'')\<rparr>
      else
        (let gt = gt\<lparr>InputObject_Name := InputObjectConfig_Name config,
                     InputObject_Description := InputObjectConfig_Description config,
                     InputObject_typeConfig := config\<rparr>;
             (fieldMap, gt) = InputObject_defineFieldMap gt
         in gt\<lparr>InputObject_fields := fieldMap\<rparr>))"

definition InputObject_GetFields :: "'a InputObject \<Rightarrow> 'a InputObjectFieldMap" where
  "InputObject_GetFields gt = InputObject_fields gt"

section \<open>Vocabulary of the properties\<close>

text \<open>
  A finite nesting of wrappers around a type: the wrapper structs, outermost first, each
  with the fields a List or NonNull struct has besides \<open>OfType\<close>.
\<close>

datatype wrapper = WrapList "error option" | WrapNonNull string "error option"

fun wrap :: "wrapper \<Rightarrow> gtype \<Rightarrow> gtype" where
  "wrap (WrapList e) t = TList (List_type (Some t) e)"
| "wrap (WrapNonNull n e) t = TNonNull (NonNull n (Some t) e)"

definition nest :: "wrapper list \<Rightarrow> gtype \<Rightarrow> gtype" where
  "nest ws leaf = foldr wrap ws leaf"

fun isWrapper :: "gtype \<Rightarrow> bool" where
  "isWrapper (TList gl) = True"
| "isWrapper (TNonNull gl) = True"
| "isWrapper t = False"

text \<open>
  The store in the middle of \<open>NewObject\<close>: the new struct holds its name, description,
  predicate and configuration, and \<open>GetInterfaces\<close> has not yet run.
\<close>

definition newObjectStore :: "('a, 'i) store \<Rightarrow> addr \<Rightarrow> ('a, 'i) ObjectConfig \<Rightarrow> ('a, 'i) store" where
  "newObjectStore s objectType config =
     s\<lparr>objects := (objects s)(objectType :=
         Object_zero\<lparr>Object_Name := ObjectConfig_Name config,
                     Object_Description := ObjectConfig_Description config,
                     Object_IsTypeOf := ObjectConfig_IsTypeOf config,
                     Object_typeConfig := config\<rparr>)\<rparr>"

text \<open>
  The three kinds of entry of an input-object field map, as the loop of
  \<open>(*InputObject).defineFieldMap\<close> tells them apart, and the field it builds from an
  entry with a valid name and a type.
\<close>

definition inputFieldOf :: "string \<Rightarrow> 'a InputObjectFieldConfig \<Rightarrow> 'a InputObjectField" where
  "inputFieldOf fieldName fieldConfig =
     \<lparr>InputObjectField_Name = fieldName,
      InputObjectField_Type = InputObjectFieldConfig_Type fieldConfig,
      InputObjectField_DefaultValue = InputObjectFieldConfig_DefaultValue fieldConfig,
      InputObjectField_Description = InputObjectFieldConfig_Description fieldConfig\<rparr>"

definition entrySkipped :: "string \<times> 'a InputObjectFieldConfig option \<Rightarrow> bool" where
  "entrySkipped e = (snd e = None \<or> \<not> spec_validName (fst e))"

definition entryValid :: "string \<times> 'a InputObjectFieldConfig option \<Rightarrow> bool" where
  "entryValid e =
     (case snd e of
        None \<Rightarrow> False
      | Some fieldConfig \<Rightarrow>
          spec_validName (fst e) \<and> InputObjectFieldConfig_Type fieldConfig \<noteq> None)"

definition entryNilType :: "string \<times> 'a InputObjectFieldConfig option \<Rightarrow> bool" where
  "entryNilType e =
     (case snd e of
        None \<Rightarrow> False
      | Some fieldConfig \<Rightarrow>
          spec_validName (fst e) \<and> InputObjectFieldConfig_Type fieldConfig = None)"

text \<open>The struct of \<open>NewInputObject\<close> when it calls \<open>defineFieldMap\<close>.\<close>

definition newInputObjectStruct :: "'a InputObjectConfig \<Rightarrow> 'a InputObject" where
  "newInputObjectStruct config =
     InputObject_zero\<lparr>InputObject_Name := InputObjectConfig_Name config,
                      InputObject_Description := InputObjectConfig_Description config,
                      InputObject_typeConfig := config\<rparr>"

definition configFieldMap :: "'a InputObjectConfig \<Rightarrow> 'a InputObjectConfigFieldMap" where
  "configFieldMap config =
     (case InputObjectConfig_Fields config of
        FieldsMap m \<Rightarrow> m
      | FieldsThunk m \<Rightarrow> m
      | FieldsOther \<Rightarrow> [])"

text \<open>
  The specification's wording of the resolution of an abstract type. A possible type
  answers for a value when it declares an \<open>isTypeOf\<close> predicate and the predicate returns
  true. The outcome is the first possible type, in the order of the list, that answers;
  \<open>nil\<close> when none does; never a panic.
\<close>

definition answersTrue :: "('a, 'i) store \<Rightarrow> 'a go_value \<Rightarrow> 'i \<Rightarrow> addr \<Rightarrow> bool" where
  "answersTrue s v info p =
     (case Object_IsTypeOf (objects s p) of
        None \<Rightarrow> False
      | Some isTypeOf \<Rightarrow> isTypeOf v info)"

definition firstMatch ::
  "('a, 'i) store \<Rightarrow> 'a go_value \<Rightarrow> 'i \<Rightarrow> addr list \<Rightarrow> addr option outcome \<Rightarrow> bool"
where
  "firstMatch s v info ps out =
     (case out of
        Panic \<Rightarrow> False
      | Return None \<Rightarrow> (\<forall>p \<in> set ps. \<not> answersTrue s v info p)
      | Return (Some p) \<Rightarrow>
          (\<exists>i < length ps. ps ! i = p \<and> answersTrue s v info p \<and>
             (\<forall>j < i. \<not> answersTrue s v info (ps ! j))))"

definition hasIsTypeOf :: "('a, 'i) store \<Rightarrow> addr \<Rightarrow> bool" where
  "hasIsTypeOf s p = (Object_IsTypeOf (objects s p) \<noteq> None)"

section \<open>Example inputs\<close>

text \<open>
  Concrete configurations on which the theorems below are exercised. \<open>TScalar 0\<close> in
  \<open>store_zero\<close> is a scalar without a construction error.
\<close>

definition exampleInputField :: "unit InputObjectFieldConfig" where
  "exampleInputField =
     \<lparr>InputObjectFieldConfig_Type = Some (TScalar 0),
      InputObjectFieldConfig_DefaultValue = GoNil,
      InputObjectFieldConfig_Description = []\<rparr>"

definition exampleInputFieldNilType :: "unit InputObjectFieldConfig" where
  "exampleInputFieldNilType =
     \<lparr>InputObjectFieldConfig_Type = None,
      InputObjectFieldConfig_DefaultValue = GoNil,
      InputObjectFieldConfig_Description = []\<rparr>"

definition exampleInputObjectConfig ::
  "string \<Rightarrow> unit InputObjectConfigFieldMap \<Rightarrow> unit InputObjectConfig"
where
  "exampleInputObjectConfig name fieldMap =
     \<lparr>InputObjectConfig_Name = name, InputObjectConfig_Fields = FieldsMap fieldMap,
      InputObjectConfig_Description = []\<rparr>"

definition exampleField :: "unit FieldConfig" where
  "exampleField =
     \<lparr>FieldConfig_Name = [], FieldConfig_Type = Some (TScalar 0), FieldConfig_Args = [],
      FieldConfig_Resolve = None, FieldConfig_DeprecationReason = [],
      FieldConfig_Description = []\<rparr>"

definition exampleFieldDefinition :: "string \<Rightarrow> unit FieldDefinition" where
  "exampleFieldDefinition name =
     \<lparr>FieldDefinition_Name = name, FieldDefinition_Description = [],
      FieldDefinition_Type = Some (TScalar 0), FieldDefinition_Args = [],
      FieldDefinition_Resolve = None, FieldDefinition_DeprecationReason = []\<rparr>"

text \<open>
  A store with an interface \<open>Animal\<close> at address 0 and three objects that implement it,
  constructed in the order \<open>Rock\<close> (address 3, no \<open>isTypeOf\<close>), \<open>Dog\<close> (address 1),
  \<open>Cat\<close> (address 2); and the union \<open>Pet\<close> of \<open>Dog\<close> and \<open>Cat\<close>.
\<close>

definition exampleIs :: "string \<Rightarrow> unit go_value \<Rightarrow> unit \<Rightarrow> bool" where
  "exampleIs kind v info = (v = GoString kind)"

definition exampleObjectConfig ::
  "string \<Rightarrow> (unit go_value \<Rightarrow> unit \<Rightarrow> bool) option \<Rightarrow> (unit, unit) ObjectConfig"
where
  "exampleObjectConfig name isTypeOf =
     \<lparr>ObjectConfig_Name = name, ObjectConfig_Interfaces = InterfacesSlice [Some 0],
      ObjectConfig_Fields = [], ObjectConfig_IsTypeOf = isTypeOf, ObjectConfig_Description = []\<rparr>"

definition exampleAnimal :: "(unit, unit) Interface" where
  "exampleAnimal =
     NewInterface \<lparr>InterfaceConfig_Name = ''Animal'', InterfaceConfig_Fields = [],
                   InterfaceConfig_ResolveType = Some (\<lambda>v info. None),
                   InterfaceConfig_Description = []\<rparr>"

definition exampleStore :: "(unit, unit) store" where
  "exampleStore =
     NewObject
       (NewObject
          (NewObject (store_zero\<lparr>interfaces := (interfaces store_zero)(0 := exampleAnimal)\<rparr>)
             3 (exampleObjectConfig ''Rock'' None))
          1 (exampleObjectConfig ''Dog'' (Some (exampleIs ''dog''))))
       2 (exampleObjectConfig ''Cat'' (Some (exampleIs ''cat'')))"

definition examplePet :: "(unit, unit) Union" where
  "examplePet =
     NewUnion exampleStore
       \<lparr>UnionConfig_Name = ''Pet'', UnionConfig_Types = [Some 1, Some 2],
        UnionConfig_ResolveType = None, UnionConfig_Description = []\<rparr>"

text \<open>
  A message names a type when the type's name occurs in it. The store below holds, at
  address 0, the interface \<open>Animal\<close> constructed without \<open>ResolveType\<close>.
\<close>

fun startsWith :: "string \<Rightarrow> string \<Rightarrow> bool" where
  "startsWith s [] = True"
| "startsWith [] (c # cs) = False"
| "startsWith (x # xs) (c # cs) = (x = c \<and> startsWith xs cs)"

fun mentions :: "string \<Rightarrow> string \<Rightarrow> bool" where
  "mentions [] name = (name = [])"
| "mentions (x # xs) name = (startsWith (x # xs) name \<or> mentions xs name)"

definition exampleStoreNoResolve :: "(unit, unit) store" where
  "exampleStoreNoResolve =
     store_zero\<lparr>interfaces := (interfaces store_zero)(0 :=
        NewInterface \<lparr>InterfaceConfig_Name = ''Animal'', InterfaceConfig_Fields = [],
                      InterfaceConfig_ResolveType = None, InterfaceConfig_Description = []\<rparr>)\<rparr>"

definition exampleImplementer ::
  "string \<Rightarrow> addr option list \<Rightarrow> (unit go_value \<Rightarrow> unit \<Rightarrow> bool) option \<Rightarrow> (unit, unit) ObjectConfig"
where
  "exampleImplementer name ifaces isTypeOf =
     \<lparr>ObjectConfig_Name = name, ObjectConfig_Interfaces = InterfacesSlice ifaces,
      ObjectConfig_Fields = [], ObjectConfig_IsTypeOf = isTypeOf, ObjectConfig_Description = []\<rparr>"

text \<open>
  An entry of an interface list that \<open>defineInterfaces\<close> accepts: a non-\<open>nil\<close>
  pointer to an interface with a \<open>ResolveType\<close> function.
\<close>

definition implementable :: "('a, 'i) store \<Rightarrow> addr option \<Rightarrow> bool" where
  "implementable s x =
     (case x of None \<Rightarrow> False | Some q \<Rightarrow> Interface_ResolveType (interfaces s q) \<noteq> None)"

text \<open>The interface list of a config, whichever way it is supplied.\<close>

definition configInterfaces :: "('a, 'i) ObjectConfig \<Rightarrow> addr option list" where
  "configInterfaces config =
     (case ObjectConfig_Interfaces config of
        InterfacesThunk l \<Rightarrow> l
      | InterfacesSlice l \<Rightarrow> l
      | _ \<Rightarrow> [])"

definition unresolvableMessage :: "string \<Rightarrow> string \<Rightarrow> string" where
  \<open>unresolvableMessage ifaceName typeName =
     ''Interface Type '' @ ifaceName @ '' does not provide a "resolveType" function ''
       @ ''and implementing Type '' @ typeName @ '' does not provide a "isTypeOf" ''
       @ ''function. There is no way to resolve this implementing type ''
       @ ''during execution.''\<close>

text \<open>
  The tables that \<open>getValueLookup\<close> and \<open>getNameLookup\<close> build from a list of values,
  and the states an Enum goes through: as \<open>NewEnum\<close> returns it, and after any number
  of calls of \<open>Serialize\<close> and \<open>ParseValue\<close>, which fill the two caches.
\<close>

definition valueTable ::
  "'a EnumValueDefinition list \<Rightarrow> ('a go_value \<times> 'a EnumValueDefinition) list"
where
  "valueTable vals = fold (\<lambda>v m. AList.update (EnumValueDefinition_Value v) v m) vals []"

definition nameTable :: "'a EnumValueDefinition list \<Rightarrow> (string \<times> 'a EnumValueDefinition) list" where
  "nameTable vals = fold (\<lambda>v m. AList.update (EnumValueDefinition_Name v) v m) vals []"

definition cachesBuilt :: "'a Enum \<Rightarrow> bool" where
  "cachesBuilt gt =
     ((Enum_valuesLookup gt = [] \<or> Enum_valuesLookup gt = valueTable (Enum_values gt)) \<and>
      (Enum_nameLookup gt = [] \<or> Enum_nameLookup gt = nameTable (Enum_values gt)))"

inductive enumState :: "'a EnumConfig \<Rightarrow> 'a Enum \<Rightarrow> bool" for config :: "'a EnumConfig" where
  constructed: "enumState config (NewEnum config)"
| serialized: "enumState config gt \<Longrightarrow> enumState config (snd (Enum_Serialize gt v))"
| parsed: "enumState config gt \<Longrightarrow> enumState config (snd (Enum_ParseValue gt v))"

definition exampleRGB :: "nat EnumConfig" where
  "exampleRGB =
     \<lparr>EnumConfig_Name = ''RGB'',
      EnumConfig_Values =
        [(''RED'', Some \<lparr>EnumValueConfig_Value = GoValue 0,
                         EnumValueConfig_DeprecationReason = [],
                         EnumValueConfig_Description = []\<rparr>),
         (''GREEN'', Some \<lparr>EnumValueConfig_Value = GoNil,
                           EnumValueConfig_DeprecationReason = [],
                           EnumValueConfig_Description = []\<rparr>),
         (''BLUE'', Some \<lparr>EnumValueConfig_Value = GoValue 2,
                          EnumValueConfig_DeprecationReason = [],
                          EnumValueConfig_Description = []\<rparr>)],
      EnumConfig_Description = []\<rparr>"

definition exampleValue :: "string \<Rightarrow> nat go_value \<Rightarrow> nat EnumValueDefinition" where
  "exampleValue name v =
     \<lparr>EnumValueDefinition_Name = name, EnumValueDefinition_Value = v,
      EnumValueDefinition_DeprecationReason = [], EnumValueDefinition_Description = []\<rparr>"

section \<open>Name validation: the pattern and its wording\<close>

lemma starFrom_single:
  assumes f: "\<And>a. f a = (if a < L \<and> P a then [Suc a] else [])"
  shows "p \<le> L \<Longrightarrow>
   set (starFrom f n p) = {q. p \<le> q \<and> q \<le> p + n \<and> q \<le> L \<and> (\<forall>k. p \<le> k \<and> k < q \<longrightarrow> P k)}"
proof (induction n arbitrary: p)
  case 0
  then show ?case by auto
next
  case (Suc n)
  show ?case
  proof (cases "p < L \<and> P p")
    case True
    then have le: "Suc p \<le> L" by simp
    have "set (starFrom f (Suc n) p) = insert p (set (starFrom f n (Suc p)))"
      using True by (simp add: f)
    also have "\<dots> = insert p {q. Suc p \<le> q \<and> q \<le> Suc p + n \<and> q \<le> L \<and>
                   (\<forall>k. Suc p \<le> k \<and> k < q \<longrightarrow> P k)}"
      by (simp only: Suc.IH [OF le])
    also have "\<dots> = {q. p \<le> q \<and> q \<le> p + Suc n \<and> q \<le> L \<and> (\<forall>k. p \<le> k \<and> k < q \<longrightarrow> P k)}"
    proof (rule set_eqI)
      fix q
      show "q \<in> insert p {q. Suc p \<le> q \<and> q \<le> Suc p + n \<and> q \<le> L \<and>
                   (\<forall>k. Suc p \<le> k \<and> k < q \<longrightarrow> P k)}
            \<longleftrightarrow> q \<in> {q. p \<le> q \<and> q \<le> p + Suc n \<and> q \<le> L \<and> (\<forall>k. p \<le> k \<and> k < q \<longrightarrow> P k)}"
      proof (cases "q = p")
        case True
        then show ?thesis using Suc.prems by auto
      next
        case False
        have "(\<forall>k. p \<le> k \<and> k < q \<longrightarrow> P k) \<longleftrightarrow> (\<forall>k. Suc p \<le> k \<and> k < q \<longrightarrow> P k)"
          using True by (metis Suc_leI le_neq_implies_less Suc_le_lessD less_imp_le_nat)
        then show ?thesis using False by auto
      qed
    qed
    finally show ?thesis .
  next
    case False
    then have "f p = []"
      by (simp add: f)
    then have "set (starFrom f (Suc n) p) = {p}"
      by simp
    moreover have "{q. p \<le> q \<and> q \<le> p + Suc n \<and> q \<le> L \<and> (\<forall>k. p \<le> k \<and> k < q \<longrightarrow> P k)} = {p}"
    proof (rule set_eqI)
      fix q
      show "q \<in> {q. p \<le> q \<and> q \<le> p + Suc n \<and> q \<le> L \<and> (\<forall>k. p \<le> k \<and> k < q \<longrightarrow> P k)} \<longleftrightarrow> q \<in> {p}"
        using False Suc.prems by (cases "q = p") (auto simp: not_less)
    qed
    ultimately show ?thesis by simp
  qed
qed

lemma starFrom_CharClass:
  "p \<le> length s \<Longrightarrow>
   set (starFrom (matchAt s (CharClass C)) n p) =
     {q. p \<le> q \<and> q \<le> p + n \<and> q \<le> length s \<and> (\<forall>k. p \<le> k \<and> k < q \<longrightarrow> inClass C (s ! k))}"
  by (rule starFrom_single) simp_all

lemma matchAt_Concat_nonempty:
  "matchAt s (Concat a b) p \<noteq> [] \<longleftrightarrow> (\<exists>q \<in> set (matchAt s a p). matchAt s b q \<noteq> [])"
  by auto

lemma matchAt_EndText_nonempty: "matchAt s EndText q \<noteq> [] \<longleftrightarrow> q = length s"
  by simp

lemma matchAt_BeginText_set: "set (matchAt s BeginText p) = (if p = 0 then {0} else {})"
  by simp

lemma star_then_end:
  assumes "p \<le> length s"
  shows "matchAt s (Concat (Star (CharClass C)) EndText) p \<noteq> [] \<longleftrightarrow>
         (\<forall>k. p \<le> k \<and> k < length s \<longrightarrow> inClass C (s ! k))"
proof -
  have "matchAt s (Concat (Star (CharClass C)) EndText) p \<noteq> [] \<longleftrightarrow>
        length s \<in> set (starFrom (matchAt s (CharClass C)) (length s - p) p)"
    unfolding matchAt_Concat_nonempty matchAt_EndText_nonempty by simp
  also have "\<dots> \<longleftrightarrow> (\<forall>k. p \<le> k \<and> k < length s \<longrightarrow> inClass C (s ! k))"
    using assms by (simp add: starFrom_CharClass)
  finally show ?thesis .
qed

lemma MatchString_anchored:
  "MatchString (Concat BeginText r) s \<longleftrightarrow> matchAt s r 0 \<noteq> []"
proof -
  have "MatchString (Concat BeginText r) s \<longleftrightarrow>
        (\<exists>start \<in> set [0..<Suc (length s)]. matchAt s (Concat BeginText r) start \<noteq> [])"
    by (simp add: MatchString_def list_ex_iff)
  also have "\<dots> \<longleftrightarrow> matchAt s r 0 \<noteq> []"
    by (auto split: if_splits)
  finally show ?thesis .
qed

lemma inClass_start:
  "inClass [(CHR ''_'', CHR ''_''), (CHR ''a'', CHR ''z''), (CHR ''A'', CHR ''Z'')] c = isNameStart c"
  by (auto simp: inClass_def isNameStart_def)

lemma inClass_rest:
  "inClass [(CHR ''_'', CHR ''_''), (CHR ''a'', CHR ''z''), (CHR ''A'', CHR ''Z''), (CHR ''0'', CHR ''9'')] c = isNameChar c"
  by (auto simp: inClass_def isNameStart_def isNameChar_def)

lemma all_from_one:
  "(\<forall>k. Suc 0 \<le> k \<and> k < length (c # cs) \<longrightarrow> P ((c # cs) ! k)) \<longleftrightarrow> list_all P cs"
proof
  assume h: "\<forall>k. Suc 0 \<le> k \<and> k < length (c # cs) \<longrightarrow> P ((c # cs) ! k)"
  show "list_all P cs"
    unfolding list_all_length
  proof (intro allI impI)
    fix n assume "n < length cs"
    then show "P (cs ! n)" using h [rule_format, of "Suc n"] by simp
  qed
next
  assume h: "list_all P cs"
  show "\<forall>k. Suc 0 \<le> k \<and> k < length (c # cs) \<longrightarrow> P ((c # cs) ! k)"
  proof (intro allI impI)
    fix k assume k: "Suc 0 \<le> k \<and> k < length (c # cs)"
    then obtain n where "k = Suc n" "n < length cs" by (cases k) auto
    then show "P ((c # cs) ! k)" using h by (simp add: list_all_length)
  qed
qed

lemma MatchString_NAME_REGEXP: "MatchString NAME_REGEXP name = spec_validName name"
proof (cases name)
  case Nil
  then show ?thesis
    by (simp add: NAME_REGEXP_def MatchString_anchored spec_validName_def)
next
  case (Cons c cs)
  let ?tail = "Concat (Star (CharClass [(CHR ''_'', CHR ''_''), (CHR ''a'', CHR ''z''),
                                   (CHR ''A'', CHR ''Z''), (CHR ''0'', CHR ''9'')])) EndText"
  have "MatchString NAME_REGEXP name \<longleftrightarrow> (isNameStart c \<and> matchAt name ?tail (Suc 0) \<noteq> [])"
    unfolding NAME_REGEXP_def MatchString_anchored matchAt_Concat_nonempty [of name "CharClass _"]
    using Cons by (simp add: inClass_start)
  also have "matchAt name ?tail (Suc 0) \<noteq> [] \<longleftrightarrow>
             (\<forall>k. Suc 0 \<le> k \<and> k < length name \<longrightarrow> isNameChar (name ! k))"
  proof -
    have "Suc 0 \<le> length name" using Cons by simp
    from star_then_end [OF this] show ?thesis by (simp only: inClass_rest)
  qed
  also have "\<dots> \<longleftrightarrow> list_all isNameChar cs"
    unfolding Cons by (rule all_from_one)
  finally show ?thesis using Cons by (simp add: spec_validName_def)
qed

lemma assertValidName_None: "assertValidName name = None \<longleftrightarrow> spec_validName name"
  by (simp add: assertValidName_def MatchString_NAME_REGEXP)

lemma assertValidName_Some:
  \<open>\<not> spec_validName name \<Longrightarrow>
   assertValidName name =
     Some (FormattedError
             (''Names must match /^[_a-zA-Z][_a-zA-Z0-9]*$/ but "'' @ name @ ''" does not.'') [])\<close>
  by (simp add: assertValidName_def MatchString_NAME_REGEXP NewFormattedError_def Formatter_def)

lemma spec_validName_nonempty: "spec_validName name \<Longrightarrow> name \<noteq> []"
  by (auto simp: spec_validName_def)

text \<open>
  C7. \<open>assertValidName\<close> returns \<open>nil\<close> exactly for the names that match the pattern
  in full: one or more characters, the first a letter or underscore, the others letters,
  digits or underscores. For every other string (the empty string, a leading digit, an
  embedded symbol) it returns an error whose message quotes the offending name. The
  function is total: no input makes it panic.
\<close>

theorem assertValidName_iff_pattern:
  \<open>(assertValidName name = None \<longleftrightarrow> spec_validName name) \<and>
   (\<not> spec_validName name \<longrightarrow>
      assertValidName name =
        Some (FormattedError
                (''Names must match /^[_a-zA-Z][_a-zA-Z0-9]*$/ but "'' @ name @ ''" does not.'') []))\<close>
  using assertValidName_None assertValidName_Some by blast

theorem assertValidName_iff_pattern_witness:
  \<open>\<not> spec_validName ''9lives'' \<and>
   assertValidName ''9lives'' =
     Some (FormattedError ''Names must match /^[_a-zA-Z][_a-zA-Z0-9]*$/ but "9lives" does not.'' []) \<and>
   \<not> spec_validName [] \<and>
   assertValidName [] =
     Some (FormattedError ''Names must match /^[_a-zA-Z][_a-zA-Z0-9]*$/ but "" does not.'' []) \<and>
   \<not> spec_validName ''a-b'' \<and>
   assertValidName ''a-b'' =
     Some (FormattedError ''Names must match /^[_a-zA-Z][_a-zA-Z0-9]*$/ but "a-b" does not.'' []) \<and>
   spec_validName ''_id9'' \<and> assertValidName ''_id9'' = None\<close>
  using assertValidName_iff_pattern [of "''9lives''"] assertValidName_iff_pattern [of "[]"]
    assertValidName_iff_pattern [of "''a-b''"] assertValidName_iff_pattern [of "''_id9''"]
  by (simp add: spec_validName_def isNameStart_def isNameChar_def)

section \<open>List, NonNull and GetNamed\<close>

text \<open>
  C8. For every type \<open>T\<close> (\<open>nil\<close> included), \<open>NewNonNull(NewNonNull(T))\<close> returns a
  NonNull whose \<open>GetError()\<close> is not \<open>nil\<close>, and so do \<open>NewNonNull(nil)\<close> and
  \<open>NewList(nil)\<close>.
\<close>

theorem NewNonNull_NewList_reject:
  "NonNull_GetError (NewNonNull s (Some (TNonNull (NewNonNull s' T)))) \<noteq> None \<and>
   NonNull_GetError (NewNonNull s None) \<noteq> None \<and>
   List_GetError (NewList None) \<noteq> None"
  by (simp add: NewNonNull_def NewList_def NonNull_GetError_def List_GetError_def)

lemma GetNamed_leaf: "\<not> isWrapper leaf \<Longrightarrow> GetNamed (Some leaf) = Some leaf"
  by (cases leaf) simp_all

lemma GetNamed_wrap: "GetNamed (Some (wrap w t)) = GetNamed (Some t)"
  by (cases w) simp_all

text \<open>
  C6. For every type that is a finite nesting of List and NonNull wrappers around a type
  that is not a wrapper, at any depth, \<open>GetNamed\<close> returns that innermost type.
  \<open>GetNamed\<close> is a total function: its loop ends on every such nesting.
\<close>

theorem GetNamed_nest:
  "\<not> isWrapper leaf \<Longrightarrow> GetNamed (Some (nest ws leaf)) = Some leaf"
  unfolding nest_def
  by (induction ws) (simp_all add: GetNamed_leaf GetNamed_wrap)

theorem GetNamed_nest_witness:
  "\<not> isWrapper (TScalar 0) \<and>
   nest [WrapNonNull [] None, WrapList None, WrapNonNull [] None] (TScalar 0) =
     TNonNull (NewNonNull (store_zero :: (unit, unit) store)
       (Some (TList (NewList (Some (TNonNull (NewNonNull (store_zero :: (unit, unit) store)
          (Some (TScalar 0))))))))) \<and>
   GetNamed (Some (TNonNull (NewNonNull (store_zero :: (unit, unit) store)
       (Some (TList (NewList (Some (TNonNull (NewNonNull (store_zero :: (unit, unit) store)
          (Some (TScalar 0)))))))))))
     = Some (TScalar 0)"
  using GetNamed_nest [of "TScalar 0" "[WrapNonNull [] None, WrapList None, WrapNonNull [] None]"]
  by (simp add: nest_def NewNonNull_def NewList_def)

section \<open>Scalar\<close>

lemma assertValidName_valid: "spec_validName name \<Longrightarrow> assertValidName name = None"
  by (simp add: assertValidName_None)

lemma NewScalar_serialize_only:
  assumes "spec_validName (ScalarConfig_Name config)"
    and "ScalarConfig_Serialize config \<noteq> None"
    and "ScalarConfig_ParseValue config = None" and "ScalarConfig_ParseLiteral config = None"
  shows \<open>Scalar_GetError (NewScalar config) =
           Some (FormattedError (ScalarConfig_Name config
                   @ '' must provide both "parseValue" and "parseLiteral" functions.'') [])\<close>
proof -
  have "ScalarConfig_Name config \<noteq> []"
    using assms(1) by (rule spec_validName_nonempty)
  moreover have "assertValidName (ScalarConfig_Name config) = None"
    using assms(1) by (simp add: assertValidName_None)
  ultimately show ?thesis
    using assms(2-4)
    by (simp add: NewScalar_def Let_def Scalar_GetError_def Scalar_zero_def Scalar_String_def
        NewFormattedError_def Formatter_def)
qed

text \<open>
  C1. The claim is that a ScalarConfig with a valid name, a \<open>Serialize\<close> function and
  neither \<open>ParseValue\<close> nor \<open>ParseLiteral\<close> is accepted. \<open>NewScalar\<close> rejects it:
  the test \<open>ParseValue == nil || ParseLiteral == nil\<close> also holds when both are absent.
  The scalar \<open>Odd\<close> of the type's own documentation, with a \<open>serialize\<close> function
  only, gets the error below.
\<close>

theorem NewScalar_Odd_rejected:
  \<open>Scalar_GetError
     (NewScalar \<lparr>ScalarConfig_Name = ''Odd'', ScalarConfig_Description = [],
                 ScalarConfig_Serialize = Some (\<lambda>v :: unit go_value. v),
                 ScalarConfig_ParseValue = None, ScalarConfig_ParseLiteral = None\<rparr>)
   = Some (FormattedError ''Odd must provide both "parseValue" and "parseLiteral" functions.'' [])\<close>
  by (simp add: NewScalar_def Let_def Scalar_GetError_def Scalar_zero_def Scalar_String_def
      NewFormattedError_def Formatter_def assertValidName_valid spec_validName_def
      isNameStart_def isNameChar_def)

section \<open>Object construction\<close>

lemma objects_addImplementation [simp]: "objects (addImplementation a iface s) = objects s"
  by (simp add: addImplementation_def)

lemma objects_fold_addImplementation [simp]:
  "objects (fold (addImplementation a) ifaces s) = objects s"
  by (induction ifaces arbitrary: s) simp_all

lemma Object_GetInterfaces_object:
  "objects (snd (Object_GetInterfaces s gt)) gt =
     (case ObjectConfig_Interfaces (Object_typeConfig (objects s gt)) of
        InterfacesOther typeName \<Rightarrow>
          (objects s gt)\<lparr>Object_err := Some (errorString (''Unknown Object.Interfaces type: '' @ typeName))\<rparr>
      | InterfacesThunk l \<Rightarrow>
          (objects s gt)\<lparr>Object_err := snd (defineInterfaces s gt l),
                          Object_interfaces := fst (defineInterfaces s gt l)\<rparr>
      | InterfacesSlice l \<Rightarrow>
          (objects s gt)\<lparr>Object_err := snd (defineInterfaces s gt l),
                          Object_interfaces := fst (defineInterfaces s gt l)\<rparr>
      | InterfacesNil \<Rightarrow>
          (objects s gt)\<lparr>Object_err := snd (defineInterfaces s gt []),
                          Object_interfaces := fst (defineInterfaces s gt [])\<rparr>)"
  by (simp add: Object_GetInterfaces_def Let_def split: Interfaces_value.splits prod.splits)

lemma NewObject_valid:
  assumes "spec_validName (ObjectConfig_Name config)"
  shows "objects (NewObject s a config) a =
           objects (snd (Object_GetInterfaces (newObjectStore s a config) a)) a"
proof -
  have "ObjectConfig_Name config \<noteq> []"
    using assms by (rule spec_validName_nonempty)
  then show ?thesis
    using assms
    by (simp add: NewObject_def newObjectStore_def assertValidName_valid Let_def split: prod.splits)
qed

lemma NewObject_Description:
  assumes "spec_validName (ObjectConfig_Name config)"
  shows "Object_Description (objects (NewObject s a config) a) = ObjectConfig_Description config"
  unfolding NewObject_valid [OF assms] Object_GetInterfaces_object
  by (simp add: newObjectStore_def Object_zero_def split: Interfaces_value.splits)

section \<open>Descriptions\<close>

lemma NewEnum_Description:
  assumes "spec_validName (EnumConfig_Name config)"
  shows "Enum_Description (NewEnum config) = EnumConfig_Description config"
  using assms
  by (simp add: NewEnum_def Let_def Enum_zero_def assertValidName_valid
      split: prod.splits option.splits)

lemma NewScalar_Description:
  assumes "spec_validName (ScalarConfig_Name config)"
  shows "Scalar_GetDescription (NewScalar config) = ScalarConfig_Description config"
  using assms spec_validName_nonempty [OF assms]
  by (simp add: NewScalar_def Let_def Scalar_zero_def Scalar_GetDescription_def
      assertValidName_valid)

lemma NewInterface_Description:
  assumes "spec_validName (InterfaceConfig_Name config)"
  shows "Interface_GetDescription (NewInterface config) = InterfaceConfig_Description config"
  using assms spec_validName_nonempty [OF assms]
  by (simp add: NewInterface_def Let_def Interface_zero_def Interface_GetDescription_def
      assertValidName_valid)

lemma NewUnion_Description:
  assumes "spec_validName (UnionConfig_Name config)"
  shows "Union_GetDescription (NewUnion s config) = UnionConfig_Description config"
  using assms spec_validName_nonempty [OF assms]
  by (simp add: NewUnion_def Let_def Union_zero_def Union_GetDescription_def
      assertValidName_valid split: option.splits)

lemma InputObject_loop_keeps:
  "InputObject_Name (snd (InputObject_defineFieldMap_loop gt m fm)) = InputObject_Name gt \<and>
   InputObject_Description (snd (InputObject_defineFieldMap_loop gt m fm)) = InputObject_Description gt \<and>
   InputObject_typeConfig (snd (InputObject_defineFieldMap_loop gt m fm)) = InputObject_typeConfig gt"
  by (induction gt m fm rule: InputObject_defineFieldMap_loop.induct)
     (simp_all split: option.splits)

lemma InputObject_defineFieldMap_keeps:
  "InputObject_Name (snd (InputObject_defineFieldMap gt)) = InputObject_Name gt \<and>
   InputObject_Description (snd (InputObject_defineFieldMap gt)) = InputObject_Description gt \<and>
   InputObject_typeConfig (snd (InputObject_defineFieldMap gt)) = InputObject_typeConfig gt"
  by (simp add: InputObject_defineFieldMap_def Let_def InputObject_loop_keeps)

lemma NewInputObject_Description:
  assumes "InputObjectConfig_Name config \<noteq> []"
  shows "InputObject_GetDescription (NewInputObject config) = InputObjectConfig_Description config"
  using assms
  by (simp add: NewInputObject_def Let_def InputObject_GetDescription_def split_beta
      InputObject_defineFieldMap_keeps InputObject_zero_def)

text \<open>
  C10. \<open>GetDescription()\<close> of an Object and of an Enum is the empty string for every
  instance. A constructor given a valid name stores the configured description in the
  \<open>Description\<close> field, and the accessor still returns the empty string; the accessors of
  Scalar, Interface, Union and InputObject return the configured description.
\<close>

theorem GetDescription_Object_Enum_empty:
  "Object_GetDescription gt = [] \<and> Enum_GetDescription ge = [] \<and>
   (spec_validName (ObjectConfig_Name oc) \<longrightarrow>
      Object_Description (objects (NewObject s a oc) a) = ObjectConfig_Description oc \<and>
      Object_GetDescription (objects (NewObject s a oc) a) = []) \<and>
   (spec_validName (EnumConfig_Name ec) \<longrightarrow>
      Enum_Description (NewEnum ec) = EnumConfig_Description ec \<and>
      Enum_GetDescription (NewEnum ec) = []) \<and>
   (spec_validName (ScalarConfig_Name sc) \<longrightarrow>
      Scalar_GetDescription (NewScalar sc) = ScalarConfig_Description sc) \<and>
   (spec_validName (InterfaceConfig_Name ic) \<longrightarrow>
      Interface_GetDescription (NewInterface ic) = InterfaceConfig_Description ic) \<and>
   (spec_validName (UnionConfig_Name uc) \<longrightarrow>
      Union_GetDescription (NewUnion s' uc) = UnionConfig_Description uc) \<and>
   (InputObjectConfig_Name ioc \<noteq> [] \<longrightarrow>
      InputObject_GetDescription (NewInputObject ioc) = InputObjectConfig_Description ioc)"
  by (simp add: Object_GetDescription_def Enum_GetDescription_def NewObject_Description
      NewEnum_Description NewScalar_Description NewInterface_Description NewUnion_Description
      NewInputObject_Description)

theorem GetDescription_Object_Enum_empty_witness:
  "spec_validName ''Dog'' \<and>
   Object_Description
     (objects (NewObject (store_zero :: (unit, unit) store) 0
                 (ObjectConfig_zero\<lparr>ObjectConfig_Name := ''Dog'',
                                    ObjectConfig_Description := ''A dog''\<rparr>)) 0) = ''A dog'' \<and>
   Object_GetDescription
     (objects (NewObject (store_zero :: (unit, unit) store) 0 (ObjectConfig_zero\<lparr>ObjectConfig_Name := ''Dog'',
                                               ObjectConfig_Description := ''A dog''\<rparr>)) 0) = [] \<and>
   spec_validName ''RGB'' \<and>
   Enum_Description
     (NewEnum (EnumConfig_zero\<lparr>EnumConfig_Name := ''RGB'', EnumConfig_Description := ''Colours''\<rparr>
                 :: unit EnumConfig)) = ''Colours'' \<and>
   Enum_GetDescription
     (NewEnum (EnumConfig_zero\<lparr>EnumConfig_Name := ''RGB'', EnumConfig_Description := ''Colours''\<rparr>
                 :: unit EnumConfig)) = [] \<and>
   Scalar_GetDescription
     (NewScalar (ScalarConfig_zero\<lparr>ScalarConfig_Name := ''RGB'', ScalarConfig_Description := ''Colours''\<rparr>
                 :: unit ScalarConfig)) = ''Colours'' \<and>
   Interface_GetDescription
     (NewInterface (InterfaceConfig_zero\<lparr>InterfaceConfig_Name := ''Dog'',
                      InterfaceConfig_Description := ''A dog''\<rparr>
                 :: (unit, unit) InterfaceConfig)) = ''A dog'' \<and>
   Union_GetDescription
     (NewUnion (store_zero :: (unit, unit) store) (UnionConfig_zero\<lparr>UnionConfig_Name := ''Dog'', UnionConfig_Description := ''A dog''\<rparr>))
       = ''A dog'' \<and>
   InputObject_GetDescription
     (NewInputObject (InputObjectConfig_zero\<lparr>InputObjectConfig_Name := ''Dog'',
                        InputObjectConfig_Description := ''A dog''\<rparr>
                 :: unit InputObjectConfig)) = ''A dog''"
  using GetDescription_Object_Enum_empty
    [of "Object_zero :: (unit, unit) Object" "Enum_zero :: unit Enum"
        "ObjectConfig_zero\<lparr>ObjectConfig_Name := ''Dog'', ObjectConfig_Description := ''A dog''\<rparr>
           :: (unit, unit) ObjectConfig" "store_zero :: (unit, unit) store" 0
        "EnumConfig_zero\<lparr>EnumConfig_Name := ''RGB'', EnumConfig_Description := ''Colours''\<rparr>
           :: unit EnumConfig"
        "ScalarConfig_zero\<lparr>ScalarConfig_Name := ''RGB'', ScalarConfig_Description := ''Colours''\<rparr>
           :: unit ScalarConfig"
        "InterfaceConfig_zero\<lparr>InterfaceConfig_Name := ''Dog'', InterfaceConfig_Description := ''A dog''\<rparr>
           :: (unit, unit) InterfaceConfig"
        "UnionConfig_zero\<lparr>UnionConfig_Name := ''Dog'', UnionConfig_Description := ''A dog''\<rparr>
           :: (unit, unit) UnionConfig" "store_zero :: (unit, unit) store"
        "InputObjectConfig_zero\<lparr>InputObjectConfig_Name := ''Dog'', InputObjectConfig_Description := ''A dog''\<rparr>
           :: unit InputObjectConfig"]
  by (simp add: spec_validName_def isNameStart_def isNameChar_def ObjectConfig_zero_def
      EnumConfig_zero_def ScalarConfig_zero_def InterfaceConfig_zero_def UnionConfig_zero_def
      InputObjectConfig_zero_def)

section \<open>InputObject: the field map\<close>

lemma assertValidName_invalid: "\<not> spec_validName name \<Longrightarrow> \<exists>err. assertValidName name = Some err"
  using assertValidName_None [of name] by (cases "assertValidName name") auto

lemma InputObject_loop_skip_entry:
  assumes "entrySkipped e"
  shows "InputObject_defineFieldMap_loop gt m (e # rest) = InputObject_defineFieldMap_loop gt m rest"
proof (cases e)
  case (Pair n c)
  show ?thesis
  proof (cases c)
    case None
    then show ?thesis using Pair by simp
  next
    case (Some fc)
    then have "\<not> spec_validName n" using assms Pair by (simp add: entrySkipped_def)
    then obtain err where "assertValidName n = Some err"
      using assertValidName_invalid by blast
    then show ?thesis using Pair Some by simp
  qed
qed

lemma InputObject_loop_valid_entry:
  assumes "snd e = Some fc" "spec_validName (fst e)" "InputObjectFieldConfig_Type fc \<noteq> None"
  shows "InputObject_defineFieldMap_loop gt m (e # rest) =
           InputObject_defineFieldMap_loop gt (AList.update (fst e) (inputFieldOf (fst e) fc) m) rest"
  using assms by (cases e) (auto simp: assertValidName_valid inputFieldOf_def)

lemma InputObject_loop_nilType_entry:
  assumes "snd e = Some fc" "spec_validName (fst e)" "InputObjectFieldConfig_Type fc = None"
  shows \<open>InputObject_defineFieldMap_loop gt m (e # rest) =
           (m, gt\<lparr>InputObject_err := Some (FormattedError
                  (InputObject_Name gt @ ''.'' @ fst e
                     @ '' field type must be Input Type but got: <nil>.'') [])\<rparr>)\<close>
  using assms
  by (cases e) (simp add: assertValidName_valid InputObject_String_def NewFormattedError_def Formatter_def)

lemma InputObject_loop_append:
  assumes "\<forall>e \<in> set pre. entrySkipped e \<or> entryValid e"
  shows "InputObject_defineFieldMap_loop gt m (pre @ post) =
           InputObject_defineFieldMap_loop gt (fst (InputObject_defineFieldMap_loop gt m pre)) post"
  using assms
proof (induction pre arbitrary: m)
  case Nil
  then show ?case by simp
next
  case (Cons e pre)
  then have rest: "\<forall>e \<in> set pre. entrySkipped e \<or> entryValid e" by simp
  from Cons.prems have "entrySkipped e \<or> entryValid e" by simp
  then show ?case
  proof
    assume "entrySkipped e"
    then show ?thesis
      using Cons.IH [OF rest] by (simp add: InputObject_loop_skip_entry)
  next
    assume "entryValid e"
    then obtain fc where "snd e = Some fc" "spec_validName (fst e)"
      "InputObjectFieldConfig_Type fc \<noteq> None"
      by (auto simp: entryValid_def split: option.splits)
    then show ?thesis
      using Cons.IH [OF rest] by (simp add: InputObject_loop_valid_entry)
  qed
qed

lemma InputObject_loop_no_error:
  assumes "\<forall>e \<in> set fm. entrySkipped e \<or> entryValid e"
  shows "snd (InputObject_defineFieldMap_loop gt m fm) = gt"
  using assms
proof (induction fm arbitrary: m)
  case Nil
  then show ?case by simp
next
  case (Cons e fm)
  then have rest: "\<forall>e \<in> set fm. entrySkipped e \<or> entryValid e" by simp
  from Cons.prems have "entrySkipped e \<or> entryValid e" by simp
  then show ?case
  proof
    assume "entrySkipped e"
    then show ?thesis
      using Cons.IH [OF rest] by (simp add: InputObject_loop_skip_entry)
  next
    assume "entryValid e"
    then obtain fc where "snd e = Some fc" "spec_validName (fst e)"
      "InputObjectFieldConfig_Type fc \<noteq> None"
      by (auto simp: entryValid_def split: option.splits)
    then show ?thesis
      using Cons.IH [OF rest] by (simp add: InputObject_loop_valid_entry)
  qed
qed

text \<open>Every key of the result is a key already collected or the name of a valid entry.\<close>

lemma InputObject_loop_lookup:
  assumes "distinct (map fst fm)"
    and "\<forall>e \<in> set fm. entrySkipped e \<or> entryValid e"
  shows "map_of (fst (InputObject_defineFieldMap_loop gt m fm)) n =
           (case map_of fm n of
              Some (Some fc) \<Rightarrow> if spec_validName n then Some (inputFieldOf n fc) else map_of m n
            | _ \<Rightarrow> map_of m n)"
  using assms
proof (induction fm arbitrary: m)
  case Nil
  then show ?case by simp
next
  case (Cons e fm)
  then have rest: "\<forall>e \<in> set fm. entrySkipped e \<or> entryValid e"
    and dist: "distinct (map fst fm)" and fresh: "fst e \<notin> fst ` set fm"
    by simp_all
  have absent: "map_of fm (fst e) = None"
    using fresh by (simp add: map_of_eq_None_iff)
  from Cons.prems have "entrySkipped e \<or> entryValid e" by simp
  then show ?case
  proof
    assume sk: "entrySkipped e"
    have step: "InputObject_defineFieldMap_loop gt m (e # fm) = InputObject_defineFieldMap_loop gt m fm"
      using sk by (rule InputObject_loop_skip_entry)
    have here: "snd e = None \<or> \<not> spec_validName (fst e)"
      using sk by (simp add: entrySkipped_def)
    show ?thesis
    proof (cases "n = fst e")
      case True
      then show ?thesis
        unfolding step using here absent Cons.IH [OF dist rest, of m]
        by (auto split: option.splits)
    next
      case False
      then show ?thesis
        unfolding step using Cons.IH [OF dist rest, of m] by simp
    qed
  next
    assume "entryValid e"
    then obtain fc where fc: "snd e = Some fc" "spec_validName (fst e)"
      "InputObjectFieldConfig_Type fc \<noteq> None"
      by (auto simp: entryValid_def split: option.splits)
    have step: "InputObject_defineFieldMap_loop gt m (e # fm) =
                  InputObject_defineFieldMap_loop gt (AList.update (fst e) (inputFieldOf (fst e) fc) m) fm"
      using fc by (rule InputObject_loop_valid_entry)
    show ?thesis
    proof (cases "n = fst e")
      case True
      then show ?thesis
        unfolding step
        using fc absent Cons.IH [OF dist rest, of "AList.update (fst e) (inputFieldOf (fst e) fc) m"]
        by (auto simp: update_conv' split: option.splits)
    next
      case False
      then show ?thesis
        unfolding step
        using fc Cons.IH [OF dist rest, of "AList.update (fst e) (inputFieldOf (fst e) fc) m"]
        by (auto simp: update_conv' split: option.splits)
    qed
  qed
qed

lemma NewInputObject_unfold:
  assumes "InputObjectConfig_Name config \<noteq> []" "configFieldMap config \<noteq> []"
  shows "InputObject_GetFields (NewInputObject config) =
           fst (InputObject_defineFieldMap_loop (newInputObjectStruct config) [] (configFieldMap config))"
    and "InputObject_GetError (NewInputObject config) =
           InputObject_err (snd (InputObject_defineFieldMap_loop (newInputObjectStruct config) []
              (configFieldMap config)))"
  using assms
  by (simp_all add: NewInputObject_def InputObject_defineFieldMap_def Let_def split_beta
      newInputObjectStruct_def configFieldMap_def InputObject_GetFields_def InputObject_GetError_def)

section \<open>The field map of an Object\<close>

lemma defineFieldMap_loop_skip_nil:
  "defineFieldMap_loop s t m (pre @ (n, None) # post) = defineFieldMap_loop s t m (pre @ post)"
  by (induction s t m pre rule: defineFieldMap_loop.induct)
     (simp_all split: option.splits sum.splits)

lemma defineFieldMap_loop_append:
  "snd (defineFieldMap_loop s t m pre) = None \<Longrightarrow>
   defineFieldMap_loop s t m (pre @ post) =
     defineFieldMap_loop s t (fst (defineFieldMap_loop s t m pre)) post"
  by (induction s t m pre rule: defineFieldMap_loop.induct)
     (auto split: option.splits sum.splits if_splits)

lemma defineFieldMap_loop_abort:
  assumes "FieldConfig_Type f = None \<or>
           (\<exists>ty. FieldConfig_Type f = Some ty \<and> (Type_GetError s ty \<noteq> None \<or> \<not> spec_validName n))"
  shows "fst (defineFieldMap_loop s t m ((n, Some f) # post)) = m \<and>
         snd (defineFieldMap_loop s t m ((n, Some f) # post)) \<noteq> None"
proof (cases "FieldConfig_Type f")
  case None
  then show ?thesis by simp
next
  case (Some ty)
  show ?thesis
  proof (cases "Type_GetError s ty = None")
    case False
    then show ?thesis using Some by auto
  next
    case True
    then have "\<not> spec_validName n" using assms Some by simp
    then obtain err where "assertValidName n = Some err"
      using assertValidName_invalid by blast
    then show ?thesis using Some True by simp
  qed
qed

lemma example_names [simp]:
  "spec_validName ''lat''" "spec_validName ''lon''" "spec_validName ''alt''"
  "spec_validName ''id''" "spec_validName ''name''" "spec_validName ''Geo''"
  "\<not> spec_validName ''1bad''"
  by (simp_all add: spec_validName_def isNameStart_def isNameChar_def)

lemma Scalar_GetError_store_zero [simp]: "Scalar_GetError (scalars store_zero p) = None"
  by (simp add: store_zero_def Scalar_GetError_def Scalar_zero_def)

text \<open>
  C2, as the claim states it, fails twice. An input-object entry with a valid name and a
  \<open>nil\<close> type is not skipped: the loop records an error and returns, so a valid field
  that the iteration reaches later (\<open>lat\<close> below) is missing from the result. And the
  field builder of Object does not stop at an entry whose field config is \<open>nil\<close>: it
  skips it and still defines the field \<open>name\<close>.
\<close>

theorem field_builders_counterexample:
  "entryValid (''lat'', Some exampleInputField) \<and>
   map_of (InputObject_GetFields (NewInputObject (exampleInputObjectConfig ''Geo''
      [(''alt'', Some exampleInputFieldNilType), (''lat'', Some exampleInputField)]))) ''lat'' = None \<and>
   InputObject_GetError (NewInputObject (exampleInputObjectConfig ''Geo''
      [(''alt'', Some exampleInputFieldNilType), (''lat'', Some exampleInputField)])) \<noteq> None \<and>
   InputObject_GetError (NewInputObject (exampleInputObjectConfig ''Geo''
      [(''lat'', Some exampleInputField), (''alt'', Some exampleInputFieldNilType)])) \<noteq> None \<and>
   defineFieldMap (store_zero :: (unit, unit) store) (TObject 0)
      [(''id'', None), (''name'', Some exampleField)]
     = ([(''name'', exampleFieldDefinition ''name'')], None)"
  by (simp add: entryValid_def exampleInputField_def exampleInputFieldNilType_def
      exampleInputObjectConfig_def exampleField_def exampleFieldDefinition_def
      NewInputObject_def InputObject_defineFieldMap_def Let_def InputObject_GetFields_def
      InputObject_GetError_def InputObject_zero_def assertValidName_valid defineFieldMap_def)

lemma InputObject_loop_absent:
  assumes "distinct (map fst fm)" "\<forall>e \<in> set fm. entrySkipped e \<or> entryValid e"
    and "n \<notin> fst ` set fm"
  shows "map_of (fst (InputObject_defineFieldMap_loop gt [] fm)) n = None"
proof -
  have "map_of fm n = None"
    using assms(3) by (simp add: map_of_eq_None_iff)
  then show ?thesis
    using InputObject_loop_lookup [OF assms(1,2), of gt "[]" n] by simp
qed

lemma NewInputObject_all_valid:
  fixes config :: "'a InputObjectConfig"
  assumes "InputObjectConfig_Name config \<noteq> []" "configFieldMap config \<noteq> []"
    and "distinct (map fst (configFieldMap config))"
    and "\<forall>e \<in> set (configFieldMap config). entrySkipped e \<or> entryValid e"
  shows "InputObject_GetError (NewInputObject config) = None \<and>
         (\<forall>n. map_of (InputObject_GetFields (NewInputObject config)) n =
            (case map_of (configFieldMap config) n of
               Some (Some fc) \<Rightarrow> if spec_validName n then Some (inputFieldOf n fc) else None
             | _ \<Rightarrow> None))"
proof -
  have "InputObject_GetError (NewInputObject config) = None"
    unfolding NewInputObject_unfold(2) [OF assms(1,2)] InputObject_loop_no_error [OF assms(4)]
    by (simp add: newInputObjectStruct_def InputObject_zero_def)
  moreover have "map_of (InputObject_GetFields (NewInputObject config)) n =
            (case map_of (configFieldMap config) n of
               Some (Some fc) \<Rightarrow> if spec_validName n then Some (inputFieldOf n fc) else None
             | _ \<Rightarrow> None)" for n
    unfolding NewInputObject_unfold(1) [OF assms(1,2)] InputObject_loop_lookup [OF assms(3,4)]
    by (simp split: option.splits)
  ultimately show ?thesis by blast
qed

lemma NewInputObject_nil_type:
  fixes config :: "'a InputObjectConfig"
  assumes name: "InputObjectConfig_Name config \<noteq> []"
    and fm: "configFieldMap config = pre @ e # post"
    and dist: "distinct (map fst (configFieldMap config))"
    and pre: "\<forall>x \<in> set pre. entrySkipped x \<or> entryValid x"
    and e: "entryNilType e"
  shows \<open>InputObject_GetError (NewInputObject config) =
           Some (FormattedError (InputObjectConfig_Name config @ ''.'' @ fst e
                   @ '' field type must be Input Type but got: <nil>.'') []) \<and>
         InputObject_GetFields (NewInputObject config) =
           fst (InputObject_defineFieldMap_loop (newInputObjectStruct config) [] pre) \<and>
         (\<forall>x \<in> set post. map_of (InputObject_GetFields (NewInputObject config)) (fst x) = None)\<close>
proof -
  let ?gt = "newInputObjectStruct config"
  have ne: "configFieldMap config \<noteq> []" using fm by simp
  obtain fc where fc: "snd e = Some fc" "spec_validName (fst e)"
    "InputObjectFieldConfig_Type fc = None"
    using e by (auto simp: entryNilType_def split: option.splits)
  have loop: "InputObject_defineFieldMap_loop ?gt [] (configFieldMap config) =
        (fst (InputObject_defineFieldMap_loop ?gt [] pre),
         ?gt\<lparr>InputObject_err := Some (FormattedError
                  (InputObject_Name ?gt @ ''.'' @ fst e
                     @ '' field type must be Input Type but got: <nil>.'') [])\<rparr>)"
    unfolding fm InputObject_loop_append [OF pre]
    using fc by (rule InputObject_loop_nilType_entry)
  have fields: "InputObject_GetFields (NewInputObject config) =
                  fst (InputObject_defineFieldMap_loop ?gt [] pre)"
    unfolding NewInputObject_unfold(1) [OF name ne] loop by simp
  have err: "InputObject_GetError (NewInputObject config) =
           Some (FormattedError (InputObjectConfig_Name config @ ''.'' @ fst e
                   @ '' field type must be Input Type but got: <nil>.'') [])"
    unfolding NewInputObject_unfold(2) [OF name ne] loop
    by (simp add: newInputObjectStruct_def)
  have "map_of (InputObject_GetFields (NewInputObject config)) (fst x) = None"
    if "x \<in> set post" for x
  proof -
    have "distinct (map fst pre)" and "fst x \<notin> fst ` set pre"
      using dist that unfolding fm by auto
    then show ?thesis
      unfolding fields using pre by (intro InputObject_loop_absent) simp_all
  qed
  then show ?thesis using fields err by blast
qed

lemma defineFieldMap_abort:
  assumes "snd (defineFieldMap_loop s t [] pre) = None"
    and "FieldConfig_Type f = None \<or>
           (\<exists>ty. FieldConfig_Type f = Some ty \<and> (Type_GetError s ty \<noteq> None \<or> \<not> spec_validName n))"
  shows "fst (defineFieldMap s t (pre @ (n, Some f) # post)) = fst (defineFieldMap_loop s t [] pre) \<and>
         snd (defineFieldMap s t (pre @ (n, Some f) # post)) \<noteq> None"
  using defineFieldMap_loop_abort [OF assms(2)] defineFieldMap_loop_append [OF assms(1)]
  by (simp add: defineFieldMap_def)

lemma defineFieldMap_skip_nil:
  assumes "pre @ post \<noteq> []"
  shows "defineFieldMap s t (pre @ (n, None) # post) = defineFieldMap s t (pre @ post)"
  using assms by (simp add: defineFieldMap_def defineFieldMap_loop_skip_nil)

text \<open>
  C2, amended. In the field map given to \<open>NewInputObject\<close>, an entry whose field config
  is \<open>nil\<close> or whose name is invalid is skipped on its own: when every entry is of that
  kind or has a valid name and a type, no error is recorded and the resulting map holds
  exactly the fields with a valid name. An entry with a valid name and a \<open>nil\<close> type is
  not skipped: the loop records an error naming it and returns the fields collected
  before it, so the entries after it are absent. The field builder of Object skips an
  entry whose field config is \<open>nil\<close> as well, and returns an error, with the fields
  collected so far, at the first entry in iteration order whose type is \<open>nil\<close>, whose
  type carries an error, or whose name is invalid.
\<close>

theorem field_builders_skip_or_abort:
  fixes config :: "'a InputObjectConfig" and s :: "('b, 'i) store"
  shows
  \<open>(InputObjectConfig_Name config \<noteq> [] \<and> configFieldMap config \<noteq> [] \<and>
    distinct (map fst (configFieldMap config)) \<and>
    (\<forall>e \<in> set (configFieldMap config). entrySkipped e \<or> entryValid e) \<longrightarrow>
      InputObject_GetError (NewInputObject config) = None \<and>
      (\<forall>n. map_of (InputObject_GetFields (NewInputObject config)) n =
         (case map_of (configFieldMap config) n of
            Some (Some fc) \<Rightarrow> if spec_validName n then Some (inputFieldOf n fc) else None
          | _ \<Rightarrow> None))) \<and>
   (InputObjectConfig_Name config \<noteq> [] \<and> configFieldMap config = pre @ e # post \<and>
    distinct (map fst (configFieldMap config)) \<and>
    (\<forall>x \<in> set pre. entrySkipped x \<or> entryValid x) \<and> entryNilType e \<longrightarrow>
      InputObject_GetError (NewInputObject config) =
        Some (FormattedError (InputObjectConfig_Name config @ ''.'' @ fst e
                @ '' field type must be Input Type but got: <nil>.'') []) \<and>
      InputObject_GetFields (NewInputObject config) =
        fst (InputObject_defineFieldMap_loop (newInputObjectStruct config) [] pre) \<and>
      (\<forall>x \<in> set post. map_of (InputObject_GetFields (NewInputObject config)) (fst x) = None)) \<and>
   (opre @ opost \<noteq> [] \<longrightarrow>
      defineFieldMap s t (opre @ (fieldName, None) # opost) = defineFieldMap s t (opre @ opost)) \<and>
   (snd (defineFieldMap_loop s t [] opre) = None \<and>
    (FieldConfig_Type f = None \<or>
     (\<exists>ty. FieldConfig_Type f = Some ty \<and>
           (Type_GetError s ty \<noteq> None \<or> \<not> spec_validName fieldName))) \<longrightarrow>
      fst (defineFieldMap s t (opre @ (fieldName, Some f) # opost)) =
        fst (defineFieldMap_loop s t [] opre) \<and>
      snd (defineFieldMap s t (opre @ (fieldName, Some f) # opost)) \<noteq> None)\<close>
  using NewInputObject_all_valid [of config] NewInputObject_nil_type [of config pre e post]
    defineFieldMap_skip_nil [of opre opost s t fieldName]
    defineFieldMap_abort [of s t opre f fieldName opost]
  by blast

theorem field_builders_skip_or_abort_witness:
  \<open>distinct (map fst (configFieldMap (exampleInputObjectConfig ''Geo''
      [(''lat'', Some exampleInputField), (''1bad'', Some exampleInputField), (''lon'', None)]))) \<and>
   entryValid (''lat'', Some exampleInputField) \<and>
   entrySkipped (''1bad'', Some exampleInputField) \<and>
   entrySkipped (''lon'', None :: unit InputObjectFieldConfig option) \<and>
   InputObject_GetError (NewInputObject (exampleInputObjectConfig ''Geo''
      [(''lat'', Some exampleInputField), (''1bad'', Some exampleInputField), (''lon'', None)])) = None \<and>
   map_of (InputObject_GetFields (NewInputObject (exampleInputObjectConfig ''Geo''
      [(''lat'', Some exampleInputField), (''1bad'', Some exampleInputField), (''lon'', None)])))
      ''lat'' = Some (inputFieldOf ''lat'' exampleInputField) \<and>
   map_of (InputObject_GetFields (NewInputObject (exampleInputObjectConfig ''Geo''
      [(''lat'', Some exampleInputField), (''1bad'', Some exampleInputField), (''lon'', None)])))
      ''1bad'' = None \<and>
   entryNilType (''alt'', Some exampleInputFieldNilType) \<and>
   InputObject_GetError (NewInputObject (exampleInputObjectConfig ''Geo''
      [(''lat'', Some exampleInputField), (''alt'', Some exampleInputFieldNilType),
       (''lon'', Some exampleInputField)]))
     = Some (FormattedError ''Geo.alt field type must be Input Type but got: <nil>.'' []) \<and>
   map_of (InputObject_GetFields (NewInputObject (exampleInputObjectConfig ''Geo''
      [(''lat'', Some exampleInputField), (''alt'', Some exampleInputFieldNilType),
       (''lon'', Some exampleInputField)]))) ''lon'' = None \<and>
   defineFieldMap (store_zero :: (unit, unit) store) (TObject 0)
      [(''id'', Some exampleField), (''1bad'', None), (''name'', Some exampleField)]
     = defineFieldMap (store_zero :: (unit, unit) store) (TObject 0)
         [(''id'', Some exampleField), (''name'', Some exampleField)] \<and>
   snd (defineFieldMap_loop (store_zero :: (unit, unit) store) (TObject 0) []
          [(''id'', Some exampleField)]) = None \<and>
   fst (defineFieldMap (store_zero :: (unit, unit) store) (TObject 0)
      [(''id'', Some exampleField), (''1bad'', Some exampleField), (''name'', Some exampleField)])
     = [(''id'', exampleFieldDefinition ''id'')] \<and>
   snd (defineFieldMap (store_zero :: (unit, unit) store) (TObject 0)
      [(''id'', Some exampleField), (''1bad'', Some exampleField), (''name'', Some exampleField)])
     \<noteq> None\<close>
  using
    field_builders_skip_or_abort
      [of "exampleInputObjectConfig ''Geo''
             [(''lat'', Some exampleInputField), (''1bad'', Some exampleInputField), (''lon'', None)]"
          "[]" "(''lat'', Some exampleInputField)" "[]"
          "[(''id'', Some exampleField)]" "[(''name'', Some exampleField)]"
          "store_zero :: (unit, unit) store" "TObject 0" "''1bad''" exampleField]
    field_builders_skip_or_abort
      [of "exampleInputObjectConfig ''Geo''
             [(''lat'', Some exampleInputField), (''alt'', Some exampleInputFieldNilType),
              (''lon'', Some exampleInputField)]"
          "[(''lat'', Some exampleInputField)]" "(''alt'', Some exampleInputFieldNilType)"
          "[(''lon'', Some exampleInputField)]"
          "[(''id'', Some exampleField)]" "[(''name'', Some exampleField)]"
          "store_zero :: (unit, unit) store" "TObject 0" "''1bad''" exampleField]
  by (simp add: configFieldMap_def exampleInputObjectConfig_def entryValid_def entrySkipped_def
      entryNilType_def exampleInputField_def exampleInputFieldNilType_def exampleField_def
      exampleFieldDefinition_def inputFieldOf_def
      NewInputObject_def InputObject_defineFieldMap_def Let_def InputObject_GetFields_def
      InputObject_GetError_def InputObject_zero_def InputObject_String_def assertValidName_valid
      assertValidName_Some NewFormattedError_def Formatter_def defineFieldMap_def)

section \<open>Type names\<close>

lemma named_constructors_reject_invalid_name:
  assumes "\<not> spec_validName name"
  shows "Scalar_GetError (NewScalar (sc\<lparr>ScalarConfig_Name := name\<rparr>)) \<noteq> None"
    and "Object_GetError (objects (NewObject s a (oc\<lparr>ObjectConfig_Name := name\<rparr>)) a) \<noteq> None"
    and "Interface_GetError (NewInterface (ic\<lparr>InterfaceConfig_Name := name\<rparr>)) \<noteq> None"
    and "Union_GetError (NewUnion s' (uc\<lparr>UnionConfig_Name := name\<rparr>)) \<noteq> None"
    and "Enum_GetError (NewEnum (ec\<lparr>EnumConfig_Name := name\<rparr>)) \<noteq> None"
proof -
  obtain err where err: "assertValidName name = Some err"
    using assms assertValidName_invalid by blast
  show "Scalar_GetError (NewScalar (sc\<lparr>ScalarConfig_Name := name\<rparr>)) \<noteq> None"
    using err by (simp add: NewScalar_def Let_def Scalar_GetError_def)
  show "Object_GetError (objects (NewObject s a (oc\<lparr>ObjectConfig_Name := name\<rparr>)) a) \<noteq> None"
    using err by (simp add: NewObject_def Object_GetError_def)
  show "Interface_GetError (NewInterface (ic\<lparr>InterfaceConfig_Name := name\<rparr>)) \<noteq> None"
    using err by (simp add: NewInterface_def Let_def Interface_GetError_def)
  show "Union_GetError (NewUnion s' (uc\<lparr>UnionConfig_Name := name\<rparr>)) \<noteq> None"
    using err by (simp add: NewUnion_def Let_def Union_GetError_def)
  show "Enum_GetError (NewEnum (ec\<lparr>EnumConfig_Name := name\<rparr>)) \<noteq> None"
    using err by (simp add: NewEnum_def Let_def Enum_GetError_def)
qed

text \<open>
  C9. The claim is that every constructor of a named type records an error for a type
  name outside the identifier pattern, \<open>NewInputObject\<close> in particular. The constructors
  of Scalar, Object, Interface, Union and Enum call \<open>assertValidName\<close> on the type name
  (lemma above); \<open>NewInputObject\<close> only tests the name against the empty string. Given
  the name \<open>1bad\<close> and one well-formed field it returns an InputObject without error.
\<close>

theorem NewInputObject_invalid_name_accepted:
  "assertValidName ''1bad'' \<noteq> None \<and>
   InputObject_GetError
     (NewInputObject (exampleInputObjectConfig ''1bad'' [(''lat'', Some exampleInputField)])) = None \<and>
   InputObject_Name
     (NewInputObject (exampleInputObjectConfig ''1bad'' [(''lat'', Some exampleInputField)])) = ''1bad''"
  by (simp add: assertValidName_None exampleInputObjectConfig_def exampleInputField_def
      NewInputObject_def InputObject_defineFieldMap_def Let_def InputObject_GetError_def
      InputObject_zero_def assertValidName_valid)

section \<open>Resolution of abstract types\<close>

lemma getTypeOf_loop_find:
  "getTypeOf_loop s v info (map Some ps) = Return (List.find (answersTrue s v info) ps)"
  by (induction ps) (simp_all add: answersTrue_def split: option.splits)

lemma find_skips_without_predicate:
  "List.find (answersTrue s v info) (filter (hasIsTypeOf s) ps) = List.find (answersTrue s v info) ps"
  by (induction ps) (auto simp: answersTrue_def hasIsTypeOf_def split: option.splits)

lemma firstMatch_find: "firstMatch s v info ps (Return (List.find (answersTrue s v info) ps))"
proof (cases "List.find (answersTrue s v info) ps")
  case None
  then have "\<forall>p \<in> set ps. \<not> answersTrue s v info p"
    by (simp add: find_None_iff)
  then show ?thesis unfolding firstMatch_def None by simp
next
  case (Some p)
  then obtain i where "i < length ps" "answersTrue s v info (ps ! i)" "p = ps ! i"
    "\<forall>j < i. \<not> answersTrue s v info (ps ! j)"
    unfolding find_Some_iff by blast
  then show ?thesis unfolding firstMatch_def Some by auto
qed

text \<open>
  The lists of possible types hold no \<open>nil\<close> pointer: \<open>NewUnion\<close> stores the configured
  members only after testing each against \<open>nil\<close>, and \<open>NewObject\<close> appends the pointer
  of the object it has just allocated.
\<close>

lemma no_nil_is_map_Some: "None \<notin> set xs \<Longrightarrow> \<exists>ps. xs = map Some ps"
proof (induction xs)
  case Nil
  then show ?case by simp
next
  case (Cons x xs)
  then obtain ps where "xs = map Some ps" by auto
  moreover obtain p where "x = Some p" using Cons.prems by (cases x) auto
  ultimately have "x # xs = map Some (p # ps)" by simp
  then show ?case by (rule exI)
qed

lemma NewUnion_loop_no_nil: "NewUnion_loop s ut tys = None \<Longrightarrow> None \<notin> set tys"
  by (induction s ut tys rule: NewUnion_loop.induct) (auto split: if_splits)

lemma NewUnion_types_no_nil: "None \<notin> set (Union_GetPossibleTypes (NewUnion s config))"
  by (auto simp: NewUnion_def Let_def Union_GetPossibleTypes_def Union_zero_def
      dest: NewUnion_loop_no_nil split: option.splits)

lemma NewInterface_implementations_no_nil:
  "None \<notin> set (Interface_GetPossibleTypes (NewInterface config))"
  by (simp add: NewInterface_def Let_def Interface_GetPossibleTypes_def Interface_zero_def
      split: option.splits)

lemma interfaces_Object_GetInterfaces [simp]:
  "interfaces (snd (Object_GetInterfaces s gt)) = interfaces s"
  by (simp add: Object_GetInterfaces_def Let_def split: Interfaces_value.splits prod.splits)

lemma fold_addImplementation_no_nil:
  "\<forall>q. None \<notin> set (Interface_implementations (interfaces s q)) \<Longrightarrow>
   \<forall>q. None \<notin> set (Interface_implementations (interfaces (fold (addImplementation a) ifaces s) q))"
  by (induction ifaces arbitrary: s) (simp_all add: addImplementation_def)

lemma NewObject_implementations_no_nil:
  assumes "\<forall>q. None \<notin> set (Interface_implementations (interfaces s q))"
  shows "\<forall>q. None \<notin> set (Interface_implementations (interfaces (NewObject s a config) q))"
proof (cases "ObjectConfig_Name config = [] \<or> assertValidName (ObjectConfig_Name config) \<noteq> None")
  case True
  then show ?thesis using assms by (auto simp: NewObject_def)
next
  case False
  then have eq: "NewObject s a config =
      fold (addImplementation a) (fst (Object_GetInterfaces (newObjectStore s a config) a))
        (snd (Object_GetInterfaces (newObjectStore s a config) a))"
    by (auto simp: NewObject_def newObjectStore_def Let_def split_beta)
  have "\<forall>q. None \<notin> set (Interface_implementations
           (interfaces (snd (Object_GetInterfaces (newObjectStore s a config) a)) q))"
    using assms by (simp add: newObjectStore_def)
  then show ?thesis unfolding eq by (rule fold_addImplementation_no_nil)
qed

text \<open>
  C4. For a Union or an Interface without \<open>ResolveType\<close>, \<open>GetObjectType(value, info)\<close>
  goes through the possible Object types in their order, passes over those without an
  \<open>isTypeOf\<close> predicate, and returns the first whose predicate returns true for the value
  and the info, or \<open>nil\<close> when none does. It does not panic. The possible types are the
  non-\<open>nil\<close> pointers \<open>ps\<close> (every list the constructors build is of this form, by the
  lemmas above).
\<close>

theorem GetObjectType_first_match:
  "(Union_ResolveType ut = None \<and> Union_GetPossibleTypes ut = map Some ps \<longrightarrow>
      firstMatch s v info ps (Union_GetObjectType s ut v info) \<and>
      Union_GetObjectType s ut v info = Return (List.find (answersTrue s v info) ps) \<and>
      List.find (answersTrue s v info) ps =
        List.find (answersTrue s v info) (filter (hasIsTypeOf s) ps)) \<and>
   (Interface_ResolveType it = None \<and> Interface_GetPossibleTypes it = map Some qs \<longrightarrow>
      firstMatch s v info qs (Interface_GetObjectType s it v info) \<and>
      Interface_GetObjectType s it v info = Return (List.find (answersTrue s v info) qs) \<and>
      List.find (answersTrue s v info) qs =
        List.find (answersTrue s v info) (filter (hasIsTypeOf s) qs))"
  by (simp add: Union_GetObjectType_def Interface_GetObjectType_def getTypeOf_def
      getTypeOf_loop_find firstMatch_find find_skips_without_predicate)

lemma example_type_names [simp]:
  "spec_validName ''Animal''" "spec_validName ''Rock''" "spec_validName ''Dog''"
  "spec_validName ''Cat''" "spec_validName ''Pet''"
  by (simp_all add: spec_validName_def isNameStart_def isNameChar_def)

lemma objects_Object_GetInterfaces_other:
  "b \<noteq> gt \<Longrightarrow> objects (snd (Object_GetInterfaces s gt)) b = objects s b"
  by (simp add: Object_GetInterfaces_def Let_def split: Interfaces_value.splits prod.splits)

lemma objects_NewObject_other: "b \<noteq> a \<Longrightarrow> objects (NewObject s a config) b = objects s b"
  by (simp add: NewObject_def Let_def split_beta objects_Object_GetInterfaces_other
      split: option.splits)

lemma NewObject_IsTypeOf:
  assumes "spec_validName (ObjectConfig_Name config)"
  shows "Object_IsTypeOf (objects (NewObject s a config) a) = ObjectConfig_IsTypeOf config"
  unfolding NewObject_valid [OF assms] Object_GetInterfaces_object
  by (simp add: newObjectStore_def Object_zero_def split: Interfaces_value.splits)

lemma NewObject_interfaces:
  assumes "spec_validName (ObjectConfig_Name config)"
  shows "interfaces (NewObject s a config) =
           interfaces (fold (addImplementation a)
                         (fst (Object_GetInterfaces (newObjectStore s a config) a)) s)"
proof -
  have name: "ObjectConfig_Name config \<noteq> []"
    using assms by (rule spec_validName_nonempty)
  have fold_interfaces: "interfaces (fold (addImplementation a) ifaces s1) =
          interfaces (fold (addImplementation a) ifaces s2)"
    if "interfaces s1 = interfaces s2" for ifaces and s1 s2 :: "('a, 'b) store"
    using that by (induction ifaces arbitrary: s1 s2) (simp_all add: addImplementation_def)
  show ?thesis
    using name assms
    by (auto simp: NewObject_def assertValidName_valid Let_def split_beta newObjectStore_def
        intro!: fold_interfaces)
qed

lemma NewObject_implements_one:
  assumes "spec_validName (ObjectConfig_Name config)"
    and "ObjectConfig_Interfaces config = InterfacesSlice [Some i]"
    and "Interface_ResolveType (interfaces s i) \<noteq> None"
  shows "interfaces (NewObject s a config) =
           (interfaces s)(i := (interfaces s i)
              \<lparr>Interface_implementations := Interface_implementations (interfaces s i) @ [Some a]\<rparr>)"
  unfolding NewObject_interfaces [OF assms(1)]
  using assms(2,3)
  by (auto simp: Object_GetInterfaces_def newObjectStore_def Let_def defineInterfaces_def
      addImplementation_def)

lemma exampleStore_objects:
  "Object_IsTypeOf (objects exampleStore 3) = None"
  "Object_IsTypeOf (objects exampleStore 1) = Some (exampleIs ''dog'')"
  "Object_IsTypeOf (objects exampleStore (Suc 0)) = Some (exampleIs ''dog'')"
  "Object_IsTypeOf (objects exampleStore 2) = Some (exampleIs ''cat'')"
  by (simp_all add: exampleStore_def objects_NewObject_other NewObject_IsTypeOf
      exampleObjectConfig_def)

lemma exampleAnimal_ResolveType: "Interface_ResolveType exampleAnimal \<noteq> None"
  by (simp add: exampleAnimal_def NewInterface_def Let_def assertValidName_valid)

lemma exampleStore_implementations:
  "Interface_implementations (interfaces exampleStore 0) = [Some 3, Some 1, Some 2]"
  by (simp add: exampleStore_def NewObject_implements_one exampleObjectConfig_def
      exampleAnimal_ResolveType)
     (simp add: exampleAnimal_def NewInterface_def Let_def assertValidName_valid)

lemma examplePet_types:
  "Union_ResolveType examplePet = None" "Union_GetPossibleTypes examplePet = [Some 1, Some 2]"
  by (simp_all add: examplePet_def NewUnion_def Let_def assertValidName_valid
      Union_GetPossibleTypes_def exampleStore_objects Union_zero_def)

theorem GetObjectType_first_match_witness:
  "Union_ResolveType examplePet = None \<and>
   Union_GetPossibleTypes examplePet = map Some [1, 2] \<and>
   Union_GetObjectType exampleStore examplePet (GoString ''cat'') () = Return (Some 2) \<and>
   Union_GetObjectType exampleStore examplePet (GoString ''fish'') () = Return None \<and>
   Interface_ResolveType ((interfaces exampleStore 0)\<lparr>Interface_ResolveType := None\<rparr>) = None \<and>
   Interface_GetPossibleTypes ((interfaces exampleStore 0)\<lparr>Interface_ResolveType := None\<rparr>)
     = map Some [3, 1, 2] \<and>
   \<not> hasIsTypeOf exampleStore 3 \<and>
   Interface_GetObjectType exampleStore ((interfaces exampleStore 0)\<lparr>Interface_ResolveType := None\<rparr>)
     (GoString ''cat'') () = Return (Some 2) \<and>
   Interface_GetObjectType exampleStore ((interfaces exampleStore 0)\<lparr>Interface_ResolveType := None\<rparr>)
     GoNil () = Return None"
  using
    GetObjectType_first_match [of examplePet "[1, 2]" exampleStore "GoString ''cat''" "()"
      "(interfaces exampleStore 0)\<lparr>Interface_ResolveType := None\<rparr>" "[3, 1, 2]"]
    GetObjectType_first_match [of examplePet "[1, 2]" exampleStore "GoString ''fish''" "()"
      "(interfaces exampleStore 0)\<lparr>Interface_ResolveType := None\<rparr>" "[3, 1, 2]"]
    GetObjectType_first_match [of examplePet "[1, 2]" exampleStore "GoNil" "()"
      "(interfaces exampleStore 0)\<lparr>Interface_ResolveType := None\<rparr>" "[3, 1, 2]"]
  by (simp add: examplePet_types Interface_GetPossibleTypes_def exampleStore_implementations
      answersTrue_def hasIsTypeOf_def exampleStore_objects exampleIs_def)

section \<open>Objects that implement an interface without \<open>ResolveType\<close>\<close>

lemma startsWith_append: "startsWith (name @ rest) name"
  by (induction name) simp_all

lemma mentions_append: "mentions (before @ name @ rest) name"
proof (induction before)
  case Nil
  show ?case
  proof (cases "name @ rest")
    case Nil
    then show ?thesis by simp
  next
    case (Cons x xs)
    have "startsWith (name @ rest) name" by (rule startsWith_append)
    then show ?thesis using Cons by simp
  qed
next
  case (Cons x before)
  then show ?case by simp
qed

lemma defineInterfaces_loop_prefix:
  assumes "\<forall>x \<in> set pre. implementable s x"
  shows "defineInterfaces_loop s t acc (pre @ rest) =
           defineInterfaces_loop s t (acc @ map the pre) rest"
  using assms
proof (induction pre arbitrary: acc)
  case Nil
  then show ?case by simp
next
  case (Cons x pre)
  then obtain q where "x = Some q" "Interface_ResolveType (interfaces s q) \<noteq> None"
    by (auto simp: implementable_def split: option.splits)
  then show ?case using Cons by auto
qed

lemma defineInterfaces_loop_fails:
  assumes "x \<in> set l" "\<not> implementable s x"
  shows "snd (defineInterfaces_loop s t acc l) \<noteq> None"
  using assms
proof (induction l arbitrary: acc)
  case Nil
  then show ?case by simp
next
  case (Cons y l)
  show ?case
  proof (cases y)
    case None
    then show ?thesis by simp
  next
    case (Some q)
    show ?thesis
    proof (cases "Interface_ResolveType (interfaces s q) = None")
      case True
      then show ?thesis using Some by simp
    next
      case False
      then have "x \<noteq> y" using Cons.prems(2) Some by (auto simp: implementable_def)
      then have "x \<in> set l" using Cons.prems(1) by simp
      then show ?thesis using Cons.IH Cons.prems(2) Some False by auto
    qed
  qed
qed

lemma NewObject_error:
  assumes "spec_validName (ObjectConfig_Name config)"
    and "configInterfaces config \<noteq> []"
  shows "Object_GetError (objects (NewObject s a config) a) =
           snd (defineInterfaces_loop (newObjectStore s a config) a [] (configInterfaces config))"
  unfolding NewObject_valid [OF assms(1)] Object_GetInterfaces_object
  using assms(2)
  by (simp add: newObjectStore_def configInterfaces_def Object_GetError_def defineInterfaces_def
      split: Interfaces_value.splits)

lemma NewObject_unresolvable:
  fixes config :: "('a, 'i) ObjectConfig"
  assumes name: "spec_validName (ObjectConfig_Name config)"
    and l: "configInterfaces config = pre @ Some p # post"
    and pre: "\<forall>x \<in> set pre. implementable s x"
    and p: "Interface_ResolveType (interfaces s p) = None"
  shows "Object_GetError (objects (NewObject s a config) a) =
           Some (FormattedError
                   (unresolvableMessage (Interface_Name (interfaces s p)) (ObjectConfig_Name config)) [])"
proof -
  let ?s1 = "newObjectStore s a config"
  have ne: "configInterfaces config \<noteq> []" using l by simp
  have "implementable ?s1 x = implementable s x" for x
    by (cases x) (simp_all add: implementable_def newObjectStore_def)
  then have pre1: "\<forall>x \<in> set pre. implementable ?s1 x"
    using pre by simp
  have p1: "Interface_ResolveType (interfaces ?s1 p) = None"
    using p by (simp add: newObjectStore_def)
  have "snd (defineInterfaces_loop ?s1 a [] (configInterfaces config)) =
          snd (defineInterfaces_loop ?s1 a ([] @ map the pre) (Some p # post))"
    unfolding l by (simp only: defineInterfaces_loop_prefix [OF pre1])
  also have "\<dots> = Some (FormattedError
                   (unresolvableMessage (Interface_Name (interfaces s p)) (ObjectConfig_Name config)) [])"
    using p1
    by (simp add: unresolvableMessage_def NewFormattedError_def Formatter_def
        Interface_String_def Object_String_def newObjectStore_def Object_zero_def)
  finally show ?thesis
    unfolding NewObject_error [OF name ne] .
qed

lemma NewObject_some_error:
  fixes config :: "('a, 'i) ObjectConfig"
  assumes "Some p \<in> set (configInterfaces config)"
    and "Interface_ResolveType (interfaces s p) = None"
  shows "Object_GetError (objects (NewObject s a config) a) \<noteq> None"
proof (cases "spec_validName (ObjectConfig_Name config)")
  case False
  then obtain err where "assertValidName (ObjectConfig_Name config) = Some err"
    using assertValidName_invalid by blast
  then show ?thesis by (simp add: NewObject_def Object_GetError_def)
next
  case True
  let ?s1 = "newObjectStore s a config"
  have ne: "configInterfaces config \<noteq> []" using assms(1) by auto
  have "\<not> implementable ?s1 (Some p)"
    using assms(2) by (simp add: implementable_def newObjectStore_def)
  then show ?thesis
    unfolding NewObject_error [OF True ne]
    using assms(1) by (intro defineInterfaces_loop_fails)
qed

lemma unresolvableMessage_mentions:
  "mentions (unresolvableMessage ifaceName typeName) ifaceName"
  "mentions (unresolvableMessage ifaceName typeName) typeName"
proof -
  show "mentions (unresolvableMessage ifaceName typeName) ifaceName"
    unfolding unresolvableMessage_def by (rule mentions_append)
  have \<open>unresolvableMessage ifaceName typeName =
          (''Interface Type '' @ ifaceName @ '' does not provide a "resolveType" function ''
             @ ''and implementing Type '') @ typeName
           @ ('' does not provide a "isTypeOf" ''
                @ ''function. There is no way to resolve this implementing type ''
                @ ''during execution.'')\<close>
    by (simp add: unresolvableMessage_def)
  then show "mentions (unresolvableMessage ifaceName typeName) typeName"
    by (simp only: mentions_append)
qed

text \<open>
  C3, amended. An Object is constructed with a valid name and an interface list (a slice
  or a thunk) in which an Interface without \<open>ResolveType\<close> comes after none but
  non-\<open>nil\<close> interfaces that have one. Then construction records the error whose
  message names that interface and the object, whatever \<open>isTypeOf\<close> predicate the
  Object supplies, or none. For any name and any position of such an interface in the
  list, construction records some error.
\<close>

theorem NewObject_interface_without_ResolveType:
  fixes config :: "('a, 'i) ObjectConfig"
  shows
  "(spec_validName (ObjectConfig_Name config) \<and>
    configInterfaces config = pre @ Some p # post \<and>
    (\<forall>x \<in> set pre. implementable s x) \<and>
    Interface_ResolveType (interfaces s p) = None \<longrightarrow>
      Object_GetError
        (objects (NewObject s a (config\<lparr>ObjectConfig_IsTypeOf := isTypeOf\<rparr>)) a) =
        Some (FormattedError
                (unresolvableMessage (Interface_Name (interfaces s p)) (ObjectConfig_Name config)) []) \<and>
      mentions (unresolvableMessage (Interface_Name (interfaces s p)) (ObjectConfig_Name config))
        (Interface_Name (interfaces s p)) \<and>
      mentions (unresolvableMessage (Interface_Name (interfaces s p)) (ObjectConfig_Name config))
        (ObjectConfig_Name config)) \<and>
   (Some p \<in> set (configInterfaces config) \<and>
    Interface_ResolveType (interfaces s p) = None \<longrightarrow>
      Object_GetError
        (objects (NewObject s a (config\<lparr>ObjectConfig_IsTypeOf := isTypeOf\<rparr>)) a) \<noteq> None)"
  using NewObject_unresolvable [of "config\<lparr>ObjectConfig_IsTypeOf := isTypeOf\<rparr>" pre p post s a]
    NewObject_some_error [of p "config\<lparr>ObjectConfig_IsTypeOf := isTypeOf\<rparr>" s a]
  by (simp add: configInterfaces_def unresolvableMessage_mentions)

theorem NewObject_interface_without_ResolveType_witness:
  \<open>spec_validName (ObjectConfig_Name (exampleImplementer ''Dog'' [Some 0] None)) \<and>
   configInterfaces (exampleImplementer ''Dog'' [Some 0] None) = [] @ Some 0 # [] \<and>
   Interface_ResolveType (interfaces exampleStoreNoResolve 0) = None \<and>
   Object_GetError
     (objects (NewObject exampleStoreNoResolve 1
        ((exampleImplementer ''Dog'' [Some 0] None)
           \<lparr>ObjectConfig_IsTypeOf := Some (exampleIs ''dog'')\<rparr>)) 1)
     = Some (FormattedError
        (''Interface Type Animal does not provide a "resolveType" function ''
           @ ''and implementing Type Dog does not provide a "isTypeOf" ''
           @ ''function. There is no way to resolve this implementing type ''
           @ ''during execution.'') []) \<and>
   Object_GetError
     (objects (NewObject exampleStoreNoResolve 1
        ((exampleImplementer ''Dog'' [Some 0] None)\<lparr>ObjectConfig_IsTypeOf := None\<rparr>)) 1)
     = Some (FormattedError
        (''Interface Type Animal does not provide a "resolveType" function ''
           @ ''and implementing Type Dog does not provide a "isTypeOf" ''
           @ ''function. There is no way to resolve this implementing type ''
           @ ''during execution.'') [])\<close>
proof -
  have iface: "Interface_ResolveType (interfaces exampleStoreNoResolve 0) = None"
    "Interface_Name (interfaces exampleStoreNoResolve 0) = ''Animal''"
    by (simp_all add: exampleStoreNoResolve_def NewInterface_def Let_def assertValidName_valid)
  show ?thesis
    using
      NewObject_interface_without_ResolveType
        [of "exampleImplementer ''Dog'' [Some 0] None" "[]" 0 "[]" exampleStoreNoResolve 1
            "Some (exampleIs ''dog'')"]
      NewObject_interface_without_ResolveType
        [of "exampleImplementer ''Dog'' [Some 0] None" "[]" 0 "[]" exampleStoreNoResolve 1 None]
    by (simp add: iface configInterfaces_def exampleImplementer_def unresolvableMessage_def)
qed

text \<open>
  C3, as the claim states it, fails on two inputs whose interface list contains the
  interface \<open>Animal\<close> without \<open>ResolveType\<close>. When a \<open>nil\<close> entry precedes it, the
  recorded error is about the \<open>nil\<close> entry; when the object's name is invalid, it is the
  name error of \<open>NewObject\<close>, which returns before it reads the interfaces. Neither
  message names the interface.
\<close>

theorem NewObject_interface_counterexample:
  \<open>Some 0 \<in> set (configInterfaces (exampleImplementer ''Dog'' [None, Some 0] None)) \<and>
   Some 0 \<in> set (configInterfaces (exampleImplementer ''1Dog'' [Some 0] None)) \<and>
   Interface_ResolveType (interfaces exampleStoreNoResolve 0) = None \<and>
   Interface_Name (interfaces exampleStoreNoResolve 0) = ''Animal'' \<and>
   Object_GetError
     (objects (NewObject exampleStoreNoResolve 1 (exampleImplementer ''Dog'' [None, Some 0] None)) 1)
     = Some (FormattedError
               ''Dog may only implement Interface types, it cannot implement: <nil>.'' []) \<and>
   \<not> mentions ''Dog may only implement Interface types, it cannot implement: <nil>.'' ''Animal'' \<and>
   Object_GetError
     (objects (NewObject exampleStoreNoResolve 1 (exampleImplementer ''1Dog'' [Some 0] None)) 1)
     = Some (FormattedError
               ''Names must match /^[_a-zA-Z][_a-zA-Z0-9]*$/ but "1Dog" does not.'' []) \<and>
   \<not> mentions ''Names must match /^[_a-zA-Z][_a-zA-Z0-9]*$/ but "1Dog" does not.'' ''Animal''\<close>
proof -
  have iface: "Interface_ResolveType (interfaces exampleStoreNoResolve 0) = None"
    "Interface_Name (interfaces exampleStoreNoResolve 0) = ''Animal''"
    by (simp_all add: exampleStoreNoResolve_def NewInterface_def Let_def assertValidName_valid)
  have cfg: "configInterfaces (exampleImplementer ''Dog'' [None, Some 0] None) = [None, Some 0]"
    "configInterfaces (exampleImplementer ''1Dog'' [Some 0] None) = [Some 0]"
    by (simp_all add: configInterfaces_def exampleImplementer_def)
  have dog: "spec_validName (ObjectConfig_Name (exampleImplementer ''Dog'' [None, Some 0] None))"
    by (simp add: exampleImplementer_def)
  have e1: "Object_GetError
     (objects (NewObject exampleStoreNoResolve 1 (exampleImplementer ''Dog'' [None, Some 0] None)) 1)
     = Some (FormattedError
               ''Dog may only implement Interface types, it cannot implement: <nil>.'' [])"
    unfolding NewObject_error [OF dog, unfolded cfg, simplified] cfg
    by (simp add: newObjectStore_def exampleImplementer_def Object_String_def Object_zero_def
        NewFormattedError_def Formatter_def)
  have bad: "\<not> spec_validName ''1Dog''"
    by (simp add: spec_validName_def isNameStart_def)
  have e2: \<open>Object_GetError
     (objects (NewObject exampleStoreNoResolve 1 (exampleImplementer ''1Dog'' [Some 0] None)) 1)
     = Some (FormattedError
               ''Names must match /^[_a-zA-Z][_a-zA-Z0-9]*$/ but "1Dog" does not.'' [])\<close>
    using assertValidName_Some [OF bad]
    by (simp add: NewObject_def exampleImplementer_def Object_GetError_def)
  have m1: "\<not> mentions ''Dog may only implement Interface types, it cannot implement: <nil>.'' ''Animal''"
    by simp
  have m2: \<open>\<not> mentions ''Names must match /^[_a-zA-Z][_a-zA-Z0-9]*$/ but "1Dog" does not.'' ''Animal''\<close>
    by simp
  show ?thesis
    using iface cfg e1 e2 m1 m2 by simp
qed

section \<open>Enum: the lookup tables\<close>

lemma fold_update_other:
  "k \<notin> key ` set xs \<Longrightarrow>
   map_of (fold (\<lambda>v m. AList.update (key v) v m) xs m0) k = map_of m0 k"
  by (induction xs arbitrary: m0) (simp_all add: update_conv')

lemma fold_update_lookup:
  assumes "distinct (map key xs)" "d \<in> set xs"
  shows "map_of (fold (\<lambda>v m. AList.update (key v) v m) xs m0) (key d) = Some d"
  using assms
proof (induction xs arbitrary: m0)
  case Nil
  then show ?case by simp
next
  case (Cons x xs)
  show ?case
  proof (cases "d = x")
    case True
    have "key x \<notin> key ` set xs" using Cons.prems(1) by simp
    then show ?thesis using True by (simp add: fold_update_other update_conv')
  next
    case False
    then have "d \<in> set xs" using Cons.prems(2) by simp
    moreover have "distinct (map key xs)" using Cons.prems(1) by simp
    ultimately show ?thesis using Cons.IH by simp
  qed
qed

lemma valueTable_lookup:
  assumes "distinct (map EnumValueDefinition_Value vals)" "d \<in> set vals"
  shows "map_of (valueTable vals) (EnumValueDefinition_Value d) = Some d"
  unfolding valueTable_def using assms by (rule fold_update_lookup)

lemma nameTable_lookup:
  assumes "distinct (map EnumValueDefinition_Name vals)" "d \<in> set vals"
  shows "map_of (nameTable vals) (EnumValueDefinition_Name d) = Some d"
  unfolding nameTable_def using assms by (rule fold_update_lookup)

lemma getValueLookup_built:
  assumes "cachesBuilt gt"
  shows "fst (getValueLookup gt) = valueTable (Enum_values gt)"
    and "Enum_values (snd (getValueLookup gt)) = Enum_values gt"
    and "Enum_err (snd (getValueLookup gt)) = Enum_err gt"
    and "cachesBuilt (snd (getValueLookup gt))"
  using assms
  by (auto simp: getValueLookup_def cachesBuilt_def valueTable_def Enum_GetValues_def Let_def)

lemma getNameLookup_built:
  assumes "cachesBuilt gt"
  shows "fst (getNameLookup gt) = nameTable (Enum_values gt)"
    and "Enum_values (snd (getNameLookup gt)) = Enum_values gt"
    and "Enum_err (snd (getNameLookup gt)) = Enum_err gt"
    and "cachesBuilt (snd (getNameLookup gt))"
  using assms
  by (auto simp: getNameLookup_def cachesBuilt_def nameTable_def Enum_GetValues_def Let_def)

lemma Enum_Serialize_built:
  assumes "cachesBuilt gt"
  shows "fst (Enum_Serialize gt v) =
           (case map_of (valueTable (Enum_values gt)) v of
              Some enumValue \<Rightarrow> GoString (EnumValueDefinition_Name enumValue)
            | None \<Rightarrow> GoNil)"
    and "Enum_values (snd (Enum_Serialize gt v)) = Enum_values gt"
    and "Enum_err (snd (Enum_Serialize gt v)) = Enum_err gt"
    and "cachesBuilt (snd (Enum_Serialize gt v))"
  using getValueLookup_built [OF assms]
  by (simp_all add: Enum_Serialize_def split_beta split: option.splits)

lemma Enum_ParseValue_built:
  assumes "cachesBuilt gt"
  shows "fst (Enum_ParseValue gt v) =
           (case v of
              GoString valueStr \<Rightarrow>
                (case map_of (nameTable (Enum_values gt)) valueStr of
                   Some enumValue \<Rightarrow> EnumValueDefinition_Value enumValue
                 | None \<Rightarrow> GoNil)
            | _ \<Rightarrow> GoNil)"
    and "Enum_values (snd (Enum_ParseValue gt v)) = Enum_values gt"
    and "Enum_err (snd (Enum_ParseValue gt v)) = Enum_err gt"
    and "cachesBuilt (snd (Enum_ParseValue gt v))"
  using getNameLookup_built [OF assms] assms
  by (simp_all add: Enum_ParseValue_def split_beta split: option.splits go_value.splits)

lemma NewEnum_caches_empty:
  "Enum_valuesLookup (NewEnum config) = []" "Enum_nameLookup (NewEnum config) = []"
  by (simp_all add: NewEnum_def Let_def Enum_zero_def split_beta split: option.splits)

lemma enumState_invariant:
  assumes "enumState config gt"
  shows "Enum_values gt = Enum_values (NewEnum config) \<and>
         Enum_err gt = Enum_err (NewEnum config) \<and> cachesBuilt gt"
  using assms
proof (induction rule: enumState.induct)
  case constructed
  show ?case by (simp add: cachesBuilt_def NewEnum_caches_empty)
next
  case (serialized gt v)
  then show ?case by (simp add: Enum_Serialize_built)
next
  case (parsed gt v)
  then show ?case by (simp add: Enum_ParseValue_built)
qed

text \<open>
  C5. Take an Enum that \<open>NewEnum\<close> has constructed, in any state of its lookup caches,
  whose declared value names are unique and whose internal values are unique. For every
  declared value, parsing the serialization of its internal value gives that internal
  value back, and serializing the parse of its name gives that name back. Internal values
  are compared with \<open>==\<close>; the model covers the dynamic types on which \<open>==\<close> is
  defined and reflexive.
\<close>

theorem Enum_round_trip:
  assumes "enumState config gt"
    and "distinct (map EnumValueDefinition_Name (Enum_GetValues gt))"
    and "distinct (map EnumValueDefinition_Value (Enum_GetValues gt))"
    and "d \<in> set (Enum_GetValues gt)"
  shows "fst (Enum_ParseValue (snd (Enum_Serialize gt (EnumValueDefinition_Value d)))
                (fst (Enum_Serialize gt (EnumValueDefinition_Value d))))
           = EnumValueDefinition_Value d \<and>
         fst (Enum_Serialize (snd (Enum_ParseValue gt (GoString (EnumValueDefinition_Name d))))
                (fst (Enum_ParseValue gt (GoString (EnumValueDefinition_Name d)))))
           = GoString (EnumValueDefinition_Name d)"
proof -
  have built: "cachesBuilt gt"
    using enumState_invariant [OF assms(1)] by simp
  have names: "distinct (map EnumValueDefinition_Name (Enum_values gt))"
    and vals: "distinct (map EnumValueDefinition_Value (Enum_values gt))"
    and d: "d \<in> set (Enum_values gt)"
    using assms(2-4) by (simp_all add: Enum_GetValues_def)
  have byValue: "map_of (valueTable (Enum_values gt)) (EnumValueDefinition_Value d) = Some d"
    using vals d by (rule valueTable_lookup)
  have byName: "map_of (nameTable (Enum_values gt)) (EnumValueDefinition_Name d) = Some d"
    using names d by (rule nameTable_lookup)
  have ser: "fst (Enum_Serialize gt (EnumValueDefinition_Value d)) = GoString (EnumValueDefinition_Name d)"
    by (simp add: Enum_Serialize_built(1) [OF built] byValue)
  have par: "fst (Enum_ParseValue gt (GoString (EnumValueDefinition_Name d))) = EnumValueDefinition_Value d"
    by (simp add: Enum_ParseValue_built(1) [OF built] byName)
  let ?gt1 = "snd (Enum_Serialize gt (EnumValueDefinition_Value d))"
  let ?gt2 = "snd (Enum_ParseValue gt (GoString (EnumValueDefinition_Name d)))"
  have b1: "cachesBuilt ?gt1" and v1: "Enum_values ?gt1 = Enum_values gt"
    using Enum_Serialize_built [OF built] by simp_all
  have b2: "cachesBuilt ?gt2" and v2: "Enum_values ?gt2 = Enum_values gt"
    using Enum_ParseValue_built [OF built] by simp_all
  have "fst (Enum_ParseValue ?gt1 (GoString (EnumValueDefinition_Name d))) = EnumValueDefinition_Value d"
    by (simp add: Enum_ParseValue_built(1) [OF b1] v1 byName)
  moreover have "fst (Enum_Serialize ?gt2 (EnumValueDefinition_Value d)) = GoString (EnumValueDefinition_Name d)"
    by (simp add: Enum_Serialize_built(1) [OF b2] v2 byValue)
  ultimately show ?thesis by (simp add: ser par)
qed

text \<open>
  The value names of a constructed Enum are the keys of the configured map, so they are
  unique whenever construction succeeds.
\<close>

lemma defineEnumValues_loop_names:
  "snd (defineEnumValues_loop gt vals fm) = None \<Longrightarrow>
   \<exists>ds. fst (defineEnumValues_loop gt vals fm) = sort_key EnumValueDefinition_Name (vals @ ds) \<and>
        map EnumValueDefinition_Name ds = map fst fm"
proof (induction gt vals fm rule: defineEnumValues_loop.induct)
  case (1 gt vals)
  then show ?case by simp
next
  case (2 gt vals valueName rest)
  then show ?case by simp
next
  case (3 gt vals valueName valueConfig rest)
  show ?case
  proof (cases "assertValidName valueName")
    case (Some err)
    then show ?thesis using "3.prems" by simp
  next
    case None
    let ?v0 = "\<lparr>EnumValueDefinition_Name = valueName,
                 EnumValueDefinition_Value = EnumValueConfig_Value valueConfig,
                 EnumValueDefinition_DeprecationReason = EnumValueConfig_DeprecationReason valueConfig,
                 EnumValueDefinition_Description = EnumValueConfig_Description valueConfig\<rparr>"
    let ?v = "if EnumValueDefinition_Value ?v0 = GoNil
              then ?v0\<lparr>EnumValueDefinition_Value := GoString valueName\<rparr> else ?v0"
    have step: "defineEnumValues_loop gt vals ((valueName, Some valueConfig) # rest) =
                  defineEnumValues_loop gt (vals @ [?v]) rest"
      using None by (simp add: Let_def)
    then have "snd (defineEnumValues_loop gt (vals @ [?v]) rest) = None"
      using "3.prems" by simp
    from "3.IH" [OF None refl refl this]
    obtain ds where ds: "fst (defineEnumValues_loop gt (vals @ [?v]) rest) =
        sort_key EnumValueDefinition_Name ((vals @ [?v]) @ ds)"
      "map EnumValueDefinition_Name ds = map fst rest"
      by blast
    have "fst (defineEnumValues_loop gt vals ((valueName, Some valueConfig) # rest)) =
            sort_key EnumValueDefinition_Name (vals @ (?v # ds))"
      unfolding step ds(1) by simp
    moreover have "map EnumValueDefinition_Name (?v # ds) = map fst ((valueName, Some valueConfig) # rest)"
      using ds(2) by simp
    ultimately show ?thesis by blast
  qed
qed

lemma distinct_map_sort_key: "distinct (map f (sort_key f xs)) = distinct (map f xs)"
  by (simp add: distinct_map)

lemma NewEnum_names_distinct:
  assumes "Enum_GetError (NewEnum config) = None" "distinct (map fst (EnumConfig_Values config))"
  shows "distinct (map EnumValueDefinition_Name (Enum_GetValues (NewEnum config)))"
proof -
  let ?gt = "Enum_zero\<lparr>Enum_enumConfig := config, Enum_Name := EnumConfig_Name config,
                        Enum_Description := EnumConfig_Description config\<rparr>"
  have valid: "assertValidName (EnumConfig_Name config) = None"
    using assms(1) by (auto simp: NewEnum_def Let_def Enum_GetError_def split: option.splits)
  show ?thesis
  proof (cases "EnumConfig_Values config = []")
    case True
    then show ?thesis
      using valid by (simp add: NewEnum_def Let_def defineEnumValues_def Enum_GetValues_def)
  next
    case False
    then have vals: "Enum_GetValues (NewEnum config) =
                       fst (defineEnumValues_loop ?gt [] (EnumConfig_Values config))"
      and err: "snd (defineEnumValues_loop ?gt [] (EnumConfig_Values config)) = None"
      using valid assms(1)
      by (auto simp: NewEnum_def Let_def defineEnumValues_def Enum_GetValues_def Enum_GetError_def
          split_beta split: option.splits)
    from defineEnumValues_loop_names [OF err]
    obtain ds where "fst (defineEnumValues_loop ?gt [] (EnumConfig_Values config)) =
        sort_key EnumValueDefinition_Name ([] @ ds)"
      "map EnumValueDefinition_Name ds = map fst (EnumConfig_Values config)"
      by blast
    then show ?thesis
      unfolding vals using assms(2) by (simp add: distinct_map_sort_key)
  qed
qed

lemma example_enum_names [simp]:
  "spec_validName ''RGB''" "spec_validName ''RED''" "spec_validName ''GREEN''"
  "spec_validName ''BLUE''"
  by (simp_all add: spec_validName_def isNameStart_def isNameChar_def)

lemma NewEnum_exampleRGB:
  "Enum_GetValues (NewEnum exampleRGB) =
     [exampleValue ''BLUE'' (GoValue 2), exampleValue ''GREEN'' (GoString ''GREEN''),
      exampleValue ''RED'' (GoValue 0)]"
  "Enum_GetError (NewEnum exampleRGB) = None"
  by (simp_all add: NewEnum_def exampleRGB_def Let_def defineEnumValues_def Enum_GetValues_def
      Enum_GetError_def assertValidName_valid exampleValue_def Enum_zero_def)

theorem Enum_round_trip_witness:
  "enumState exampleRGB (NewEnum exampleRGB) \<and>
   Enum_GetError (NewEnum exampleRGB) = None \<and>
   exampleValue ''GREEN'' (GoString ''GREEN'') \<in> set (Enum_GetValues (NewEnum exampleRGB)) \<and>
   exampleValue ''RED'' (GoValue 0) \<in> set (Enum_GetValues (NewEnum exampleRGB)) \<and>
   fst (Enum_ParseValue (snd (Enum_Serialize (NewEnum exampleRGB) (GoValue 0)))
          (fst (Enum_Serialize (NewEnum exampleRGB) (GoValue 0)))) = GoValue 0 \<and>
   fst (Enum_Serialize (snd (Enum_ParseValue (NewEnum exampleRGB) (GoString ''RED'')))
          (fst (Enum_ParseValue (NewEnum exampleRGB) (GoString ''RED'')))) = GoString ''RED'' \<and>
   fst (Enum_ParseValue (snd (Enum_Serialize (NewEnum exampleRGB) (GoString ''GREEN'')))
          (fst (Enum_Serialize (NewEnum exampleRGB) (GoString ''GREEN'')))) = GoString ''GREEN''"
  using
    Enum_round_trip [OF enumState.constructed, of exampleRGB "exampleValue ''RED'' (GoValue 0)"]
    Enum_round_trip [OF enumState.constructed, of exampleRGB
      "exampleValue ''GREEN'' (GoString ''GREEN'')"]
    enumState.constructed [of exampleRGB]
  by (simp add: NewEnum_exampleRGB exampleValue_def)

end
